theory Spec2Isabelle
  imports Complex_Main
begin

section \<open>The risk scoring engine of cryoCommand\<close>

text \<open>
  A shallow embedding of \<^verbatim>\<open>RiskEngineService\<close> (risk-engine.service.ts, carried in the
  source tree inside risk-engine.module.ts). A \<^verbatim>\<open>Date\<close> is its \<^verbatim>\<open>getTime()\<close> value, an integer
  count of milliseconds. Every \<^verbatim>\<open>new Date()\<close> the service executes is an explicit argument
  \<open>now\<close> of the function that executes it.

  The numbers stored in the database are read as real numbers, and the thresholds and
  roundings of the factors are computed on them exactly. The Haversine distance is not:
  there a rounding error decides whether \<^verbatim>\<open>Math.sqrt\<close> is given a negative number and
  returns NaN, so every operation of \<open>haversineDistance\<close> and of the summation of the
  distances goes through the double-precision operations of the platform, and the
  distance, the distance factor and the vehicle score are numbers that may be NaN.
\<close>

subsection \<open>Numbers, dates and number formatting\<close>

type_synonym number = real
type_synonym Date = int

text \<open>\<^verbatim>\<open>Math.round\<close> rounds to the nearest integer, a tie towards plus infinity.\<close>

definition Math_round :: "number \<Rightarrow> number" where
  "Math_round x = of_int \<lfloor>x + 1 / 2\<rfloor>"

text \<open>A number that may be NaN.\<close>

datatype jsnumber = NaN | Num number

text \<open>
  What the process the service runs in fixes: its time zone and its double-precision
  arithmetic.
  \<^item> \<open>utcOffset t\<close> is the offset of local time from UTC, in milliseconds, at the instant
    \<open>t\<close>; \<open>localOffset t\<close> is the offset that applies to the local time value \<open>t\<close>.
  \<^item> \<open>rnd x\<close> is the double that the real result \<open>x\<close> of an arithmetic operation or of
    \<^verbatim>\<open>Math.sqrt\<close> is rounded to.
  \<^item> \<open>Math_sin\<close>, \<open>Math_cos\<close>, \<open>Math_atan2\<close> are the functions of that name of the engine
    (the language leaves their accuracy to the implementation), \<open>Math_PI\<close> its constant.
\<close>

record platform =
  utcOffset :: "Date \<Rightarrow> int"
  localOffset :: "int \<Rightarrow> int"
  rnd :: "real \<Rightarrow> real"
  Math_sin :: "real \<Rightarrow> real"
  Math_cos :: "real \<Rightarrow> real"
  Math_atan2 :: "real \<Rightarrow> real \<Rightarrow> real"
  Math_PI :: real

text \<open>
  \<^verbatim>\<open>d = new Date(); d.setHours(d.getHours() - h)\<close>: the local time of \<open>now\<close> is moved back by
  \<open>h\<close> hours on the wall clock and read as a local time again. This is \<open>h\<close> elapsed hours
  before \<open>now\<close> when the offset of the zone is the same at both ends.
\<close>

definition hoursBefore :: "platform \<Rightarrow> int \<Rightarrow> Date \<Rightarrow> Date" where
  "hoursBefore pf h now =
     (let t = now + utcOffset pf now;
          date = t - h * 3600000
      in date - localOffset pf date)"

text \<open>The decimal digit \<open>d\<close> (below ten) as a character.\<close>

definition digit :: "nat \<Rightarrow> char" where
  "digit d = ''0123456789'' ! d"

fun natToString :: "nat \<Rightarrow> string" where
  "natToString n = (if n < 10 then [digit n] else natToString (n div 10) @ [digit (n mod 10)])"

declare natToString.simps [simp del]

text \<open>The text \<^verbatim>\<open>`${n}`\<close> of an integer-valued number.\<close>

definition intToString :: "int \<Rightarrow> string" where
  "intToString i = (if i < 0 then ''-'' @ natToString (nat (- i)) else natToString (nat i))"

text \<open>
  \<^verbatim>\<open>x.toFixed(1)\<close> for a magnitude below \<open>10\<^sup>2\<^sup>1\<close>: the sign, then the integer \<open>n\<close>
  nearest to ten times the magnitude (the larger one on a tie), printed with one digit
  after the point.
\<close>

definition toFixed1 :: "number \<Rightarrow> string" where
  "toFixed1 x =
     (let n = nat \<lfloor>\<bar>x\<bar> * 10 + 1 / 2\<rfloor>
      in (if x < 0 then ''-'' else '''') @ natToString (n div 10) @ ''.'' @ [digit (n mod 10)])"

text \<open>The degree sign and the Greek letter sigma of the messages, as UTF-8 bytes.\<close>

definition degC :: string where
  "degC = [CHR 0xC2, CHR 0xB0, CHR ''C'']"

definition sigma :: string where
  "sigma = [CHR 0xCF, CHR 0x83]"

subsection \<open>Risk levels and factor results\<close>

datatype RiskLevel = LOW | MEDIUM | HIGH

text \<open>What every factor calculator returns: \<^verbatim>\<open>{ score: number; reason: string | null }\<close>.\<close>

record 'n factor_of =
  score :: 'n
  reason :: "string option"

text \<open>
  The score of every factor but the distance factor is computed from stored numbers by
  exact arithmetic; that of the distance factor may be NaN.
\<close>

type_synonym factor = "number factor_of"
type_synonym distance_factor = "jsnumber factor_of"

text \<open>\<^verbatim>\<open>calculateDelayFactor\<close> returns \<^verbatim>\<open>delayMinutes\<close> as well.\<close>

record delay_factor = "number factor_of" +
  delayMinutes :: number

definition scoreToLevel :: "number \<Rightarrow> RiskLevel" where
  "scoreToLevel s = (if s \<ge> 67 then HIGH else if s \<ge> 34 then MEDIUM else LOW)"

subsection \<open>Data staleness factor\<close>

definition calculateUpdateGap :: "Date \<Rightarrow> Date \<Rightarrow> factor" where
  "calculateUpdateGap now lastUpdate =
     (let gapMinutes = (real_of_int now - real_of_int lastUpdate) / (1000 * 60);
          sc = (if gapMinutes > 60 then 20
                else if gapMinutes > 30 then 15
                else if gapMinutes > 15 then 10
                else if gapMinutes > 5 then 5
                else 0)
      in \<lparr> score = sc,
           reason = (if sc \<ge> 10
                     then Some (''Vehicle data is '' @ intToString \<lfloor>Math_round gapMinutes\<rfloor>
                                @ '' minutes stale'')
                     else None) \<rparr>)"

subsection \<open>Stored documents\<close>

text \<open>
  The documents of the collections the service reads and writes, with the fields it uses.
  \<open>reading_id\<close> is the sensor reading's own identifier (the field \<^verbatim>\<open>id\<close> of the stored
  document, \<^verbatim>\<open>visibleId\<close> in Prisma); \<open>reading_vehicle_id\<close> is the field
  \<^verbatim>\<open>vehicle_id\<close>, the \<^verbatim>\<open>visibleId\<close> of the vehicle that sent the reading.
\<close>

record Vehicle =
  vehicle_visibleId :: string
  min_temp :: number
  max_temp :: number
  last_update :: Date

record SensorReading =
  reading_id :: string
  reading_vehicle_id :: string
  temperature :: number
  latitude :: number
  longitude :: number
  timestamp :: Date

record Alert =
  alert_vehicle_id :: string
  severity :: string
  created_at :: Date

record Trip =
  trip_visibleId :: string
  trip_vehicle_id :: string
  planned_end :: Date
  actual_end :: "Date option"
  status :: string
  avg_temp_recorded :: "number option"

record TripReading =
  tr_trip_id :: string
  tr_temperature :: number
  tr_timestamp :: Date

record TripAlert =
  ta_trip_id :: string
  is_resolved :: bool

record VehicleRiskSnapshot =
  vrs_visibleId :: string
  vrs_vehicle_id :: string
  vrs_score :: jsnumber
  vrs_level :: RiskLevel
  vrs_reasons :: "string list"
  vrs_calculated_at :: Date

record TripRiskSnapshot =
  trs_visibleId :: string
  trs_trip_id :: string
  trs_score :: number
  trs_level :: RiskLevel
  trs_predicted_eta :: Date
  trs_expected_delay_minutes :: number
  trs_calculated_at :: Date

text \<open>The database behind \<^verbatim>\<open>PrismaService\<close>: one list of documents per collection.\<close>

record db =
  vehicle :: "Vehicle list"
  sensorReading :: "SensorReading list"
  alert :: "Alert list"
  trip :: "Trip list"
  tripReading :: "TripReading list"
  tripAlert :: "TripAlert list"
  vehicleRiskSnapshot :: "VehicleRiskSnapshot list"
  tripRiskSnapshot :: "TripRiskSnapshot list"

subsection \<open>Temperature variance factor\<close>

record stats =
  avgTemp :: number
  minTemp :: number
  maxTemp :: number
  stdDev :: number
  count :: nat

text \<open>\<^verbatim>\<open>$stdDevPop\<close>: the population standard deviation.\<close>

definition stdDevPop :: "number list \<Rightarrow> number" where
  "stdDevPop xs =
     (let n = real (length xs); mu = sum_list xs / n
      in sqrt (sum_list (map (\<lambda>x. (x - mu)\<^sup>2) xs) / n))"

text \<open>
  The aggregation pipeline of \<^verbatim>\<open>calculateTempVariance\<close>: \<^verbatim>\<open>$match\<close> on the fields \<^verbatim>\<open>id\<close> and
  \<^verbatim>\<open>timestamp\<close>, then one \<^verbatim>\<open>$group\<close> over all matched documents. A group stage emits no
  document when nothing matched.
\<close>

definition tempVariancePipeline :: "db \<Rightarrow> string \<Rightarrow> Date \<Rightarrow> stats list" where
  "tempVariancePipeline d vehicleId sixHoursAgo =
     (let ts = map temperature
                 (filter (\<lambda>r. reading_id r = vehicleId \<and> timestamp r \<ge> sixHoursAgo)
                    (sensorReading d))
      in if ts = [] then []
         else [\<lparr> avgTemp = sum_list ts / real (length ts), minTemp = Min (set ts),
                 maxTemp = Max (set ts), stdDev = stdDevPop ts, count = length ts \<rparr>])"

definition calculateTempVariance :: "platform \<Rightarrow> Date \<Rightarrow> db \<Rightarrow> string \<Rightarrow> factor" where
  "calculateTempVariance pf now d vehicleId =
     (let sixHoursAgo = hoursBefore pf 6 now;
          result = tempVariancePipeline d vehicleId sixHoursAgo
      in if result = [] \<or> count (hd result) = 0
         then \<lparr> score = 5, reason = Some ''No recent sensor readings in last 6 hours'' \<rparr>
         else
           let st = hd result;
               variance = maxTemp st - minTemp st;
               sd = stdDev st;
               sc = (if variance > 10 then 25
                     else if variance > 5 then Math_round ((variance / 10) * 25)
                     else Math_round ((variance / 10) * 15));
               sc = (if sd > 3 then min (sc + 5) 25 else sc)
           in \<lparr> score = sc,
                reason =
                  (if sc \<ge> 15
                   then Some (''High temperature variance: '' @ toFixed1 variance @ degC
                              @ '' range ('' @ sigma @ ''='' @ toFixed1 sd @ '') in last 6h'')
                   else if sc \<ge> 8
                   then Some (''Moderate temperature variance: '' @ toFixed1 variance @ degC
                              @ '' range in last 6h'')
                   else None) \<rparr>)"

subsection \<open>Alert density factor\<close>

text \<open>The pipeline of \<^verbatim>\<open>calculateAlertFactor\<close>: one \<^verbatim>\<open>{_id, count}\<close> document per severity.\<close>

definition alertPipeline :: "db \<Rightarrow> string \<Rightarrow> Date \<Rightarrow> (string \<times> nat) list" where
  "alertPipeline d vehicleId twentyFourHoursAgo =
     (let matched = filter (\<lambda>a. alert_vehicle_id a = vehicleId \<and> created_at a \<ge> twentyFourHoursAgo)
                      (alert d)
      in map (\<lambda>s. (s, length (filter (\<lambda>a. severity a = s) matched)))
           (remdups (map severity matched)))"

text \<open>The loop over the groups, on (criticalCount, warningCount, totalCount).\<close>

fun alertLoop :: "(string \<times> nat) list \<Rightarrow> nat \<times> nat \<times> nat \<Rightarrow> nat \<times> nat \<times> nat" where
  "alertLoop [] acc = acc"
| "alertLoop ((gid, gcount) # rest) (criticalCount, warningCount, totalCount) =
     alertLoop rest
       (if gid = ''critical'' then gcount else criticalCount,
        if gid = ''warning'' then gcount else warningCount,
        totalCount + gcount)"

definition calculateAlertFactor :: "platform \<Rightarrow> Date \<Rightarrow> db \<Rightarrow> string \<Rightarrow> factor" where
  "calculateAlertFactor pf now d vehicleId =
     (let twentyFourHoursAgo = hoursBefore pf 24 now;
          result = alertPipeline d vehicleId twentyFourHoursAgo
      in if result = [] then \<lparr> score = 0, reason = None \<rparr>
         else
           case alertLoop result (0, 0, 0) of (criticalCount, warningCount, totalCount) \<Rightarrow>
             \<lparr> score = min (real (criticalCount * 6 + warningCount * 3)) 30,
               reason =
                 (if totalCount > 0
                  then Some (natToString totalCount @ '' alert(s) in last 24h (''
                             @ natToString criticalCount @ '' critical, ''
                             @ natToString warningCount @ '' warning)'')
                  else None) \<rparr>)"

subsection \<open>Movement anomaly factor\<close>

text \<open>The four arithmetic operators on doubles, and \<^verbatim>\<open>Math.sqrt\<close>.\<close>

definition fadd :: "platform \<Rightarrow> real \<Rightarrow> real \<Rightarrow> real" where
  "fadd pf x y = rnd pf (x + y)"

definition fsub :: "platform \<Rightarrow> real \<Rightarrow> real \<Rightarrow> real" where
  "fsub pf x y = rnd pf (x - y)"

definition fmul :: "platform \<Rightarrow> real \<Rightarrow> real \<Rightarrow> real" where
  "fmul pf x y = rnd pf (x * y)"

definition fdiv :: "platform \<Rightarrow> real \<Rightarrow> real \<Rightarrow> real" where
  "fdiv pf x y = rnd pf (x / y)"

definition Math_sqrt :: "platform \<Rightarrow> real \<Rightarrow> jsnumber" where
  "Math_sqrt pf x = (if x < 0 then NaN else Num (rnd pf (sqrt x)))"

definition toRadians :: "platform \<Rightarrow> number \<Rightarrow> number" where
  "toRadians pf degrees = fmul pf degrees (fdiv pf (Math_PI pf) 180)"

text \<open>
  \<open>haversineDistance\<close>, operation by operation. The result is NaN when one of the two
  square roots is.
\<close>

definition haversineDistance ::
  "platform \<Rightarrow> number \<Rightarrow> number \<Rightarrow> number \<Rightarrow> number \<Rightarrow> jsnumber" where
  "haversineDistance pf lat1 lon1 lat2 lon2 =
     (let R = 6371;
          dLat = toRadians pf (fsub pf lat2 lat1);
          dLon = toRadians pf (fsub pf lon2 lon1);
          a = fadd pf
                (fmul pf (Math_sin pf (fdiv pf dLat 2)) (Math_sin pf (fdiv pf dLat 2)))
                (fmul pf
                   (fmul pf
                      (fmul pf (Math_cos pf (toRadians pf lat1)) (Math_cos pf (toRadians pf lat2)))
                      (Math_sin pf (fdiv pf dLon 2)))
                   (Math_sin pf (fdiv pf dLon 2)))
      in case (Math_sqrt pf a, Math_sqrt pf (fsub pf 1 a)) of
           (Num y, Num x) \<Rightarrow> Num (fmul pf R (fmul pf 2 (Math_atan2 pf y x)))
         | _ \<Rightarrow> NaN)"

text \<open>
  The \<^verbatim>\<open>findMany\<close> of \<^verbatim>\<open>calculateDistanceFactor\<close>: the vehicle's readings since
  \<open>sixHoursAgo\<close>, by ascending timestamp (readings of equal timestamp in stored order),
  at most 500 of them.
\<close>

definition gpsReadings :: "db \<Rightarrow> string \<Rightarrow> Date \<Rightarrow> SensorReading list" where
  "gpsReadings d vehicleId sixHoursAgo =
     take 500 (sort_key timestamp
       (filter (\<lambda>r. reading_vehicle_id r = vehicleId \<and> timestamp r \<ge> sixHoursAgo)
          (sensorReading d)))"

text \<open>\<^verbatim>\<open>totalDistanceKm += x\<close>: NaN stays NaN and makes NaN.\<close>

fun addDistance :: "platform \<Rightarrow> jsnumber \<Rightarrow> jsnumber \<Rightarrow> jsnumber" where
  "addDistance pf (Num t) (Num x) = Num (fadd pf t x)"
| "addDistance pf _ _ = NaN"

text \<open>The loop \<^verbatim>\<open>for (let i = 1; i < readings.length; i++)\<close> on \<^verbatim>\<open>totalDistanceKm\<close>.\<close>

fun distanceLoop :: "platform \<Rightarrow> jsnumber \<Rightarrow> SensorReading list \<Rightarrow> jsnumber" where
  "distanceLoop pf totalDistanceKm (p # q # rest) =
     distanceLoop pf
       (addDistance pf totalDistanceKm
          (haversineDistance pf (latitude p) (longitude p) (latitude q) (longitude q)))
       (q # rest)"
| "distanceLoop pf totalDistanceKm _ = totalDistanceKm"

text \<open>
  Every comparison with NaN is false, so a NaN distance falls through to the last branch,
  whose \<^verbatim>\<open>Math.round\<close> is NaN, and gets no reason.
\<close>

definition calculateDistanceFactor ::
  "platform \<Rightarrow> Date \<Rightarrow> db \<Rightarrow> string \<Rightarrow> distance_factor" where
  "calculateDistanceFactor pf now d vehicleId =
     (let sixHoursAgo = hoursBefore pf 6 now;
          readings = gpsReadings d vehicleId sixHoursAgo
      in if length readings < 2
         then \<lparr> score = Num 5,
                reason = (if length readings = 0
                          then Some ''No GPS data available for distance calculation''
                          else None) \<rparr>
         else
           case distanceLoop pf (Num 0) readings of
             NaN \<Rightarrow> \<lparr> score = NaN, reason = None \<rparr>
           | Num totalDistanceKm \<Rightarrow>
               let sc = (if totalDistanceKm > 500 then 25
                         else if totalDistanceKm > 300 then 15
                         else if totalDistanceKm < 1 \<and> length readings > 10 then 10
                         else Math_round ((totalDistanceKm / 500) * 10))
               in \<lparr> score = Num sc,
                    reason =
                      (if sc \<ge> 15
                       then Some (''Unusual distance pattern: '' @ toFixed1 totalDistanceKm
                                  @ ''km in last 6h'')
                       else if sc \<ge> 10
                       then Some ''Vehicle appears stationary despite active readings''
                       else None) \<rparr>)"

subsection \<open>Temperature deviation factor\<close>

text \<open>
  \<open>numberToString\<close> stands for the text \<^verbatim>\<open>`${x}`\<close> of an arbitrary number, which the messages
  print the two bounds of the vehicle with. The source also computes a \<^verbatim>\<open>midPoint\<close> that it
  never uses.
\<close>

definition calculateTempDeviation ::
  "(number \<Rightarrow> string) \<Rightarrow> number option \<Rightarrow> number \<Rightarrow> number \<Rightarrow> factor" where
  "calculateTempDeviation numberToString avgTempOpt minT maxT =
     (case avgTempOpt of
        None \<Rightarrow> \<lparr> score = 5, reason = Some ''No temperature readings recorded yet'' \<rparr>
      | Some avg \<Rightarrow>
          let range = maxT - minT;
              deviation = (if avg < minT then minT - avg
                           else if avg > maxT then avg - maxT
                           else 0);
              sc = (if deviation = 0
                    then (let distToEdge = min \<bar>avg - minT\<bar> \<bar>avg - maxT\<bar>
                          in if distToEdge < range * (1 / 10) then 10 else 0)
                    else if deviation > 5 then 30
                    else if deviation > 2 then Math_round ((deviation / 5) * 30)
                    else Math_round ((deviation / 5) * 15));
              bounds = ''['' @ numberToString minT @ degC @ '', '' @ numberToString maxT @ degC @ '']''
          in \<lparr> score = sc,
               reason =
                 (if deviation > 0
                  then Some (''Average temperature '' @ toFixed1 avg @ degC @ '' is ''
                             @ toFixed1 deviation @ degC @ '' outside acceptable range '' @ bounds)
                  else if sc \<ge> 10
                  then Some (''Average temperature '' @ toFixed1 avg @ degC
                             @ '' is near the edge of acceptable range '' @ bounds)
                  else None) \<rparr>)"

subsection \<open>Violation count factor\<close>

definition calculateViolationFactor :: "db \<Rightarrow> string \<Rightarrow> factor" where
  "calculateViolationFactor d tripId =
     (let unresolvedAlerts =
            length (filter (\<lambda>a. ta_trip_id a = tripId \<and> is_resolved a = False) (tripAlert d));
          totalAlerts = length (filter (\<lambda>a. ta_trip_id a = tripId) (tripAlert d));
          resolvedCount = int totalAlerts - int unresolvedAlerts
      in \<lparr> score = min (real unresolvedAlerts * 5 + real_of_int resolvedCount * 2) 25,
           reason =
             (if totalAlerts > 0
              then Some (natToString totalAlerts @ '' violation(s) detected (''
                         @ natToString unresolvedAlerts @ '' unresolved)'')
              else None) \<rparr>)"

subsection \<open>Delay factor\<close>

definition calculateDelayFactor :: "Date \<Rightarrow> Date \<Rightarrow> Date option \<Rightarrow> string \<Rightarrow> delay_factor" where
  "calculateDelayFactor now plannedEnd actualEnd st =
     (let delay =
            (if st = ''active''
             then (if now > plannedEnd
                   then Math_round ((real_of_int now - real_of_int plannedEnd) / (1000 * 60))
                   else 0)
             else (case actualEnd of
                     Some e \<Rightarrow>
                       if e > plannedEnd
                       then Math_round ((real_of_int e - real_of_int plannedEnd) / (1000 * 60))
                       else 0
                   | None \<Rightarrow> 0));
          sc = (if delay > 120 then 25
                else if delay > 60 then 20
                else if delay > 30 then 15
                else if delay > 10 then Math_round ((delay / 60) * 15)
                else 0)
      in \<lparr> score = sc,
           reason =
             (if delay > 0
              then Some (''Trip is delayed by '' @ intToString \<lfloor>delay\<rfloor>
                         @ '' minutes beyond planned end'')
              else None),
           delayMinutes = delay \<rparr>)"

subsection \<open>Temperature spike factor\<close>

definition spikeReadings :: "db \<Rightarrow> string \<Rightarrow> TripReading list" where
  "spikeReadings d tripId =
     take 5000 (sort_key tr_timestamp (filter (\<lambda>r. tr_trip_id r = tripId) (tripReading d)))"

text \<open>The loop over consecutive readings, on (spikeCount, maxSpike).\<close>

fun spikeLoop :: "nat \<times> number \<Rightarrow> TripReading list \<Rightarrow> nat \<times> number" where
  "spikeLoop (spikeCount, maxSpike) (p # q # rest) =
     (let diff = \<bar>tr_temperature q - tr_temperature p\<bar>
      in spikeLoop
           (if diff > 3 then (spikeCount + 1, max maxSpike diff) else (spikeCount, maxSpike))
           (q # rest))"
| "spikeLoop acc _ = acc"

definition calculateTempSpikes :: "db \<Rightarrow> string \<Rightarrow> factor" where
  "calculateTempSpikes d tripId =
     (let readings = spikeReadings d tripId
      in if length readings < 2 then \<lparr> score = 0, reason = None \<rparr>
         else
           case spikeLoop (0, 0) readings of (spikeCount, maxSpike) \<Rightarrow>
             let sc = (if spikeCount > 10 then 20
                       else if spikeCount > 5 then 15
                       else if spikeCount > 0 then Math_round ((real spikeCount / 5) * 10)
                       else 0);
                 sc = (if maxSpike > 10 then min (sc + 5) 20 else sc)
             in \<lparr> score = sc,
                  reason =
                    (if spikeCount > 0
                     then Some (natToString spikeCount @ '' temperature spike(s) detected (max ''
                                @ toFixed1 maxSpike @ degC @ '' jump)'')
                     else None) \<rparr>)"

subsection \<open>Snapshots\<close>

definition storeVehicleRiskSnapshot ::
  "string \<Rightarrow> Date \<Rightarrow> db \<Rightarrow> string \<Rightarrow> jsnumber \<Rightarrow> RiskLevel \<Rightarrow> string list \<Rightarrow> db" where
  "storeVehicleRiskSnapshot uuid now d vehicleId sc level reasons =
     d\<lparr> vehicleRiskSnapshot := vehicleRiskSnapshot d @
          [\<lparr> vrs_visibleId = uuid, vrs_vehicle_id = vehicleId, vrs_score = sc, vrs_level = level,
             vrs_reasons = reasons, vrs_calculated_at = now \<rparr>] \<rparr>"

definition storeTripRiskSnapshot ::
  "string \<Rightarrow> Date \<Rightarrow> db \<Rightarrow> string \<Rightarrow> number \<Rightarrow> RiskLevel \<Rightarrow> Date \<Rightarrow> number \<Rightarrow> db" where
  "storeTripRiskSnapshot uuid now d tripId sc level predictedEta expectedDelayMinutes =
     d\<lparr> tripRiskSnapshot := tripRiskSnapshot d @
          [\<lparr> trs_visibleId = uuid, trs_trip_id = tripId, trs_score = sc, trs_level = level,
             trs_predicted_eta = predictedEta,
             trs_expected_delay_minutes = expectedDelayMinutes,
             trs_calculated_at = now \<rparr>] \<rparr>"

subsection \<open>The two scoring operations\<close>

text \<open>
  What the JavaScript runtime hands to one invocation: \<open>clock k\<close> is the value of the
  \<open>k\<close>-th \<^verbatim>\<open>new Date()\<close> it executes (counted from 0, in program order), \<open>uuidv4\<close> the
  identifier drawn for the snapshot, \<open>numberToString\<close> the text of a number in a template.
\<close>

record runtime =
  clock :: "nat \<Rightarrow> Date"
  uuidv4 :: string
  numberToString :: "number \<Rightarrow> string"

datatype error = NotFoundException string

text \<open>
  The response of either operation. \<open>'n\<close> is the type of its score: \<open>jsnumber\<close> for a
  vehicle, and \<open>number\<close> for a trip, whose factors cannot be NaN.
\<close>

record 'n RiskScoreResponseDto =
  dto_score :: 'n
  dto_level :: RiskLevel
  dto_reasons :: "string list"

text \<open>\<open>predicted_eta\<close> is an ISO string or null; the string is kept as the date it prints.\<close>

record TripRiskForecastResponseDto = "number RiskScoreResponseDto" +
  predicted_eta :: "Date option"
  expected_delay_minutes :: number

text \<open>\<^verbatim>\<open>if (r.reason) reasons.push(r.reason)\<close>: null and the empty string are falsy.\<close>

definition pushReason :: "string list \<Rightarrow> string option \<Rightarrow> string list" where
  "pushReason reasons r =
     (case r of None \<Rightarrow> reasons | Some s \<Rightarrow> if s = [] then reasons else reasons @ [s])"

text \<open>\<^verbatim>\<open>new Date(x)\<close> of a number of milliseconds drops its fraction.\<close>

definition newDate :: "number \<Rightarrow> Date" where
  "newDate x = (if x \<ge> 0 then \<lfloor>x\<rfloor> else \<lceil>x\<rceil>)"

text \<open>
  Both operations return the response or the exception thrown, together with the database
  as the call leaves it.
\<close>

text \<open>
  The last steps of \<open>getVehicleRiskScore\<close> on a total that may be NaN:
  \<^verbatim>\<open>totalScore += distanceResult.score\<close>, \<^verbatim>\<open>Math.min(Math.round(totalScore), 100)\<close>, which are NaN
  at NaN, and \<open>scoreToLevel\<close>, whose two comparisons are false at NaN.
\<close>

definition addScore :: "number \<Rightarrow> jsnumber \<Rightarrow> jsnumber" where
  "addScore totalScore x = (case x of NaN \<Rightarrow> NaN | Num y \<Rightarrow> Num (totalScore + y))"

definition roundAndCap :: "jsnumber \<Rightarrow> jsnumber" where
  "roundAndCap totalScore =
     (case totalScore of NaN \<Rightarrow> NaN | Num t \<Rightarrow> Num (min (Math_round t) 100))"

definition levelOf :: "jsnumber \<Rightarrow> RiskLevel" where
  "levelOf sc = (case sc of NaN \<Rightarrow> LOW | Num s \<Rightarrow> scoreToLevel s)"

definition getVehicleRiskScore ::
  "platform \<Rightarrow> runtime \<Rightarrow> db \<Rightarrow> string
     \<Rightarrow> (error + jsnumber RiskScoreResponseDto) \<times> db" where
  "getVehicleRiskScore pf rt d vehicleId =
     (case find (\<lambda>v. vehicle_visibleId v = vehicleId) (vehicle d) of
        None \<Rightarrow> (Inl (NotFoundException ''Vehicle not found''), d)
      | Some veh \<Rightarrow>
          let tempVarianceResult = calculateTempVariance pf (clock rt 0) d vehicleId;
              alertResult = calculateAlertFactor pf (clock rt 1) d vehicleId;
              updateGapResult = calculateUpdateGap (clock rt 2) (last_update veh);
              distanceResult = calculateDistanceFactor pf (clock rt 3) d vehicleId;
              totalScore = addScore (0 + score tempVarianceResult + score alertResult
                                       + score updateGapResult) (score distanceResult);
              reasons = pushReason (pushReason (pushReason (pushReason []
                          (reason tempVarianceResult)) (reason alertResult))
                          (reason updateGapResult)) (reason distanceResult);
              sc = roundAndCap totalScore;
              level = levelOf sc;
              reasons = (if length reasons = 0
                         then reasons @ [''All vehicle metrics are within normal range'']
                         else reasons);
              d' = storeVehicleRiskSnapshot (uuidv4 rt) (clock rt 4) d vehicleId sc level reasons
          in (Inr \<lparr> dto_score = sc, dto_level = level, dto_reasons = reasons \<rparr>, d'))"

definition getTripRiskForecast ::
  "runtime \<Rightarrow> db \<Rightarrow> string \<Rightarrow> (error + TripRiskForecastResponseDto) \<times> db" where
  "getTripRiskForecast rt d tripId =
     (case find (\<lambda>t. trip_visibleId t = tripId) (trip d) of
        None \<Rightarrow> (Inl (NotFoundException ''Trip not found''), d)
      | Some t \<Rightarrow>
          let veh = find (\<lambda>v. vehicle_visibleId v = trip_vehicle_id t) (vehicle d);
              tempDeviationResult =
                calculateTempDeviation (numberToString rt) (avg_temp_recorded t)
                  (case veh of Some v \<Rightarrow> min_temp v | None \<Rightarrow> - 25)
                  (case veh of Some v \<Rightarrow> max_temp v | None \<Rightarrow> - 15);
              violationResult = calculateViolationFactor d tripId;
              delayResult = calculateDelayFactor (clock rt 0) (planned_end t) (actual_end t) (status t);
              spikeResult = calculateTempSpikes d tripId;
              totalScore = 0 + score tempDeviationResult + score violationResult
                             + score delayResult + score spikeResult;
              reasons = pushReason (pushReason (pushReason (pushReason []
                          (reason tempDeviationResult)) (reason violationResult))
                          (reason delayResult)) (reason spikeResult);
              sc = min (Math_round totalScore) 100;
              level = scoreToLevel sc;
              reasons = (if length reasons = 0
                         then reasons @ [''All trip metrics are within normal range'']
                         else reasons);
              expectedDelayMinutes = delayMinutes delayResult;
              predictedEta =
                (if status t = ''active''
                 then newDate (real_of_int (planned_end t) + expectedDelayMinutes * 60 * 1000)
                 else (case actual_end t of Some e \<Rightarrow> e | None \<Rightarrow> planned_end t));
              d' = storeTripRiskSnapshot (uuidv4 rt) (clock rt 1) d tripId sc level
                     predictedEta expectedDelayMinutes
          in (Inr \<lparr> dto_score = sc, dto_level = level, dto_reasons = reasons,
                    predicted_eta = Some predictedEta,
                    expected_delay_minutes = expectedDelayMinutes \<rparr>, d'))"

subsection \<open>Three platforms\<close>

text \<open>The angle of the point \<open>(x, y)\<close>, in \<open>(-pi, pi]\<close>: what \<^verbatim>\<open>Math.atan2(y, x)\<close> approximates.\<close>

definition arctan2 :: "real \<Rightarrow> real \<Rightarrow> real" where
  "arctan2 y x =
     (if x > 0 then arctan (y / x)
      else if x < 0 then (if y \<ge> 0 then arctan (y / x) + pi else arctan (y / x) - pi)
      else if y > 0 then pi / 2
      else if y < 0 then - (pi / 2)
      else 0)"

text \<open>
  The Haversine formula for the great-circle distance in kilometres between two points
  given in degrees, on a sphere of radius 6371 km.
\<close>

definition radians :: "real \<Rightarrow> real" where
  "radians deg = deg * (pi / 180)"

definition haversineA :: "real \<Rightarrow> real \<Rightarrow> real \<Rightarrow> real \<Rightarrow> real" where
  "haversineA lat1 lon1 lat2 lon2 =
     (sin (radians (lat2 - lat1) / 2))\<^sup>2
     + cos (radians lat1) * cos (radians lat2) * (sin (radians (lon2 - lon1) / 2))\<^sup>2"

definition greatCircleKm :: "real \<Rightarrow> real \<Rightarrow> real \<Rightarrow> real \<Rightarrow> real" where
  "greatCircleKm lat1 lon1 lat2 lon2 = 2 * 6371 * arcsin (sqrt (haversineA lat1 lon1 lat2 lon2))"

text \<open>The idealised platform: UTC as the local zone, and arithmetic without rounding.\<close>

definition idealPlatform :: platform where
  "idealPlatform = \<lparr> utcOffset = (\<lambda>t. 0), localOffset = (\<lambda>t. 0), rnd = (\<lambda>x. x),
                     Math_sin = sin, Math_cos = cos, Math_atan2 = arctan2, Math_PI = pi \<rparr>"

text \<open>
  IEEE 754 double precision, for results in the normal range (no overflow, no subnormal
  numbers): a non-zero \<open>x\<close> with \<open>2\<^sup>e \<le> |x| < 2\<^sup>e\<^sup>+\<^sup>1\<close> is rounded to the nearest multiple
  of \<open>2\<^sup>e\<^sup>-\<^sup>5\<^sup>2\<close>, a tie to the even one.
\<close>

definition roundHalfEven :: "real \<Rightarrow> int" where
  "roundHalfEven y =
     (let f = \<lfloor>y\<rfloor>; r = y - of_int f
      in if r < 1 / 2 then f else if r > 1 / 2 then f + 1 else if even f then f else f + 1)"

definition roundDouble :: "real \<Rightarrow> real" where
  "roundDouble x =
     (if x = 0 then 0
      else let e = \<lfloor>log 2 \<bar>x\<bar>\<rfloor>; ulp = 2 powr (of_int (e - 52))
           in of_int (roundHalfEven (x / ulp)) * ulp)"

text \<open>
  A platform with that arithmetic and UTC as the local zone. \<^verbatim>\<open>Math.PI\<close> is the double
  nearest to pi. The sine, the cosine and the arctangent return the double nearest to the
  real value; the values of the sine at the doubles nearest to 87.5 degrees and to 90
  degrees in radians, and of the cosine at the former and its negative, are written out
  as the fractions they are.
\<close>

definition doubleSin :: "real \<Rightarrow> real" where
  "doubleSin x =
     (if x = 1719432786951357 / 2 ^ 50 then 8998626396882423 / 2 ^ 53
      else if x = 884279719003555 / 2 ^ 49 then 1
      else roundDouble (sin x))"

definition doubleCos :: "real \<Rightarrow> real" where
  "doubleCos x =
     (if \<bar>x\<bar> = 1719432786951357 / 2 ^ 50 then 3143108106954505 / 2 ^ 56
      else roundDouble (cos x))"

definition doublePlatform :: platform where
  "doublePlatform = \<lparr> utcOffset = (\<lambda>t. 0), localOffset = (\<lambda>t. 0), rnd = roundDouble,
                      Math_sin = doubleSin, Math_cos = doubleCos,
                      Math_atan2 = (\<lambda>y x. roundDouble (arctan2 y x)),
                      Math_PI = 884279719003555 / 2 ^ 48 \<rparr>"

text \<open>
  A zone that left summer time at the instant 90000000: one hour ahead of UTC before, on
  UTC since. Local times below 93600000 are read as summer time. Arithmetic is exact.
\<close>

definition autumnPlatform :: platform where
  "autumnPlatform = idealPlatform
     \<lparr> utcOffset := (\<lambda>t. if t < 90000000 then 3600000 else 0),
       localOffset := (\<lambda>t. if t < 93600000 then 3600000 else 0) \<rparr>"

subsection \<open>Sample data\<close>

text \<open>
  One truck with eleven readings sent from one place in the last hours (temperatures from
  -26 to -14), two critical alerts and one warning; three trips of that truck.
\<close>

definition sampleClock :: "nat \<Rightarrow> Date" where
  "sampleClock k = 100000000 + int k"

definition sampleRuntime :: runtime where
  "sampleRuntime = \<lparr> clock = sampleClock, uuidv4 = ''snapshot-1'',
                     numberToString = (\<lambda>x. intToString \<lfloor>x\<rfloor>) \<rparr>"

definition laterRuntime :: runtime where
  "laterRuntime = \<lparr> clock = (\<lambda>k. if k < 4 then sampleClock k else 100000900),
                    uuidv4 = ''snapshot-2'',
                    numberToString = (\<lambda>x. intToString \<lfloor>x\<rfloor>) \<rparr>"

definition truck :: Vehicle where
  "truck = \<lparr> vehicle_visibleId = ''vehicle-trk-001'', min_temp = - 25, max_temp = - 15,
             last_update = 96340000 \<rparr>"

definition gpsPoint :: "nat \<Rightarrow> SensorReading" where
  "gpsPoint i = \<lparr> reading_id = ''sensor-vehicle-trk-001-'' @ natToString i,
                  reading_vehicle_id = ''vehicle-trk-001'',
                  temperature = - 26 + real i * 6 / 5,
                  latitude = 41, longitude = 29,
                  timestamp = 99000000 + int i * 60000 \<rparr>"

definition truckAlert :: "string \<Rightarrow> Alert" where
  "truckAlert sev = \<lparr> alert_vehicle_id = ''vehicle-trk-001'', severity = sev,
                      created_at = 90000000 \<rparr>"

definition plannedTrip :: Trip where
  "plannedTrip = \<lparr> trip_visibleId = ''trip-001'', trip_vehicle_id = ''vehicle-trk-001'',
                   planned_end = 99000000, actual_end = None, status = ''planned'',
                   avg_temp_recorded = None \<rparr>"

definition lateTrip :: Trip where
  "lateTrip = \<lparr> trip_visibleId = ''trip-002'', trip_vehicle_id = ''vehicle-trk-001'',
                planned_end = 97300000, actual_end = None, status = ''active'',
                avg_temp_recorded = Some (- 20) \<rparr>"

definition fleetDb :: db where
  "fleetDb = \<lparr> vehicle = [truck],
               sensorReading = map gpsPoint [0, 1, 2, 3, 4, 5, 6, 7, 8, 9, 10],
               alert = [truckAlert ''critical'', truckAlert ''warning'', truckAlert ''critical''],
               trip = [plannedTrip, lateTrip],
               tripReading = [], tripAlert = [],
               vehicleRiskSnapshot = [], tripRiskSnapshot = [] \<rparr>"

text \<open>
  The same fleet with other readings of the truck:
  \<^item> two readings a minute apart, 2.5 degrees from the south pole on the meridian 0 and
    2.5 degrees from the north pole on the meridian 180;
  \<^item> eleven readings going north on the meridian 29 in steps of 0.05 km, 0.5 km in all;
  \<^item> two readings on that meridian 8 degrees of latitude apart;
  \<^item> twelve readings from one place, sent between six and seven hours before the clock.
\<close>

definition polarDb :: db where
  "polarDb = fleetDb
     \<lparr> sensorReading := [gpsPoint 0 \<lparr> latitude := - (175 / 2), longitude := 0 \<rparr>,
                          gpsPoint 1 \<lparr> latitude := 175 / 2, longitude := 180 \<rparr>] \<rparr>"

definition walkPoint :: "nat \<Rightarrow> SensorReading" where
  "walkPoint i = gpsPoint i \<lparr> latitude := real i * (9 / (6371 * pi)) \<rparr>"

definition walkDb :: db where
  "walkDb = fleetDb \<lparr> sensorReading := map walkPoint [0, 1, 2, 3, 4, 5, 6, 7, 8, 9, 10] \<rparr>"

definition jumpDb :: db where
  "jumpDb = fleetDb
     \<lparr> sensorReading := [gpsPoint 0 \<lparr> latitude := 33 \<rparr>, gpsPoint 1 \<lparr> latitude := 41 \<rparr>] \<rparr>"

definition oldPoint :: "nat \<Rightarrow> SensorReading" where
  "oldPoint i = gpsPoint i \<lparr> timestamp := 76000000 + int i * 60000 \<rparr>"

definition staleDb :: db where
  "staleDb = fleetDb
     \<lparr> sensorReading := map oldPoint [0, 1, 2, 3, 4, 5, 6, 7, 8, 9, 10, 11] \<rparr>"

text \<open>
  The same fleet, where the first trip has an average temperature in the middle of the
  truck's range and one unresolved violation.
\<close>

definition fleetDb2 :: db where
  "fleetDb2 = fleetDb \<lparr> trip := [plannedTrip \<lparr> avg_temp_recorded := Some (- 20) \<rparr>, lateTrip],
                        tripAlert := [\<lparr> ta_trip_id = ''trip-001'', is_resolved = False \<rparr>] \<rparr>"

section \<open>Properties\<close>

subsection \<open>Rounding and evaluation lemmas\<close>

lemma Math_round_Ints: "Math_round x \<in> \<int>"
  by (simp add: Math_round_def)

lemma Math_round_of_int: "Math_round (of_int n) = of_int n"
  unfolding Math_round_def by (simp add: floor_unique)

lemma Math_round_mono: "x \<le> y \<Longrightarrow> Math_round x \<le> Math_round y"
  by (simp add: Math_round_def floor_mono)

lemma Math_round_nonneg: "0 \<le> x \<Longrightarrow> 0 \<le> Math_round x"
  using Math_round_mono [of 0 x] Math_round_of_int [of 0] by simp

lemma Math_round_le_numeral: "x \<le> numeral n \<Longrightarrow> Math_round x \<le> numeral n"
  using Math_round_mono [of x "numeral n"] Math_round_of_int [of "numeral n"] by simp

lemma Math_round_0: "Math_round 0 = 0"
  by (simp add: Math_round_def)

lemmas sample_defs = sampleRuntime_def sampleClock_def fleetDb_def fleetDb2_def truck_def
  plannedTrip_def lateTrip_def truckAlert_def gpsPoint_def laterRuntime_def

lemma hoursBefore_ideal [simp]: "hoursBefore idealPlatform h now = now - h * 3600000"
  by (simp add: hoursBefore_def idealPlatform_def)

lemma natToString_numeral [simp]:
  "natToString (numeral k) =
     (if (numeral k :: nat) < 10 then [digit (numeral k)]
      else natToString (numeral k div 10) @ [digit (numeral k mod 10)])"
  by (rule natToString.simps)

lemma natToString_0 [simp]: "natToString 0 = ''0''"
  by (simp add: natToString.simps digit_def)

lemma natToString_1 [simp]: "natToString (Suc 0) = ''1''"
  by (simp add: natToString.simps digit_def)

subsection \<open>The classifier\<close>

text \<open>
  C5. The classifier gives LOW exactly below 34, MEDIUM exactly from 34 up to but excluding
  67, and HIGH exactly from 67 on; so 33 is LOW, 34 and 66 are MEDIUM, and 67 is HIGH.
\<close>

theorem scoreToLevel_thresholds:
  "(scoreToLevel s = LOW \<longleftrightarrow> s < 34)
   \<and> (scoreToLevel s = MEDIUM \<longleftrightarrow> 34 \<le> s \<and> s < 67)
   \<and> (scoreToLevel s = HIGH \<longleftrightarrow> 67 \<le> s)
   \<and> scoreToLevel 33 = LOW \<and> scoreToLevel 34 = MEDIUM
   \<and> scoreToLevel 66 = MEDIUM \<and> scoreToLevel 67 = HIGH"
  by (simp add: scoreToLevel_def)

subsection \<open>Data staleness\<close>

lemma updateGap_score_mono:
  "real_of_int now1 - real_of_int last1 \<le> real_of_int now2 - real_of_int last2 \<Longrightarrow>
   score (calculateUpdateGap now1 last1) \<le> score (calculateUpdateGap now2 last2)"
  by (simp add: calculateUpdateGap_def Let_def divide_le_cancel)

text \<open>
  C10. The staleness score is monotone in the gap between the clock and the last update
  (in milliseconds): a gap that is no longer gives a score that is no higher. A last
  update at most five minutes (300000 ms) before the clock, or after it, gives score 0
  and no reason.
\<close>

theorem calculateUpdateGap_monotone_fresh:
  "(now1 - last1 \<le> now2 - last2 \<longrightarrow>
      score (calculateUpdateGap now1 last1) \<le> score (calculateUpdateGap now2 last2))
   \<and> (now - lastUpdate \<le> 5 * 60000 \<longrightarrow>
        calculateUpdateGap now lastUpdate = \<lparr> score = 0, reason = None \<rparr>)"
proof (intro conjI impI)
  assume "now1 - last1 \<le> now2 - last2"
  then have "real_of_int (now1 - last1) \<le> real_of_int (now2 - last2)"
    by (simp only: of_int_le_iff)
  then show "score (calculateUpdateGap now1 last1) \<le> score (calculateUpdateGap now2 last2)"
    by (intro updateGap_score_mono) simp
next
  assume "now - lastUpdate \<le> 5 * 60000"
  then have "real_of_int (now - lastUpdate) \<le> real_of_int (5 * 60000)"
    by (simp only: of_int_le_iff)
  then show "calculateUpdateGap now lastUpdate = \<lparr> score = 0, reason = None \<rparr>"
    by (simp add: calculateUpdateGap_def Let_def)
qed

text \<open>
  Gaps of 10 and of 65 minutes score 5 and 20; an update 1000 seconds in the future and one
  exactly five minutes old score 0 without a reason.
\<close>

theorem calculateUpdateGap_monotone_fresh_witness:
  "score (calculateUpdateGap 1000000 400000) = 5
   \<and> score (calculateUpdateGap 4000000 100000) = 20
   \<and> score (calculateUpdateGap 1000000 400000) \<le> score (calculateUpdateGap 4000000 100000)
   \<and> calculateUpdateGap 1000000 2000000 = \<lparr> score = 0, reason = None \<rparr>
   \<and> calculateUpdateGap 1000000 700000 = \<lparr> score = 0, reason = None \<rparr>"
  using calculateUpdateGap_monotone_fresh [of 1000000 400000 4000000 100000 1000000 2000000]
    calculateUpdateGap_monotone_fresh [of 0 0 0 0 1000000 700000]
  by (simp add: calculateUpdateGap_def)

subsection \<open>Unknown subjects\<close>

text \<open>
  C3. When no vehicle has the given id, \<open>getVehicleRiskScore\<close> throws NotFound and leaves
  the database as it was; when no trip has the given id, so does \<open>getTripRiskForecast\<close>.
  In particular neither snapshot collection grows.
\<close>

theorem unknown_subject_NotFound:
  "(vehicleId \<notin> vehicle_visibleId ` set (vehicle d) \<longrightarrow>
      getVehicleRiskScore pf rt d vehicleId = (Inl (NotFoundException ''Vehicle not found''), d))
   \<and> (tripId \<notin> trip_visibleId ` set (trip d) \<longrightarrow>
      getTripRiskForecast rt d tripId = (Inl (NotFoundException ''Trip not found''), d))"
proof (intro conjI impI)
  assume "vehicleId \<notin> vehicle_visibleId ` set (vehicle d)"
  then have "find (\<lambda>v. vehicle_visibleId v = vehicleId) (vehicle d) = None"
    by (auto simp: find_None_iff)
  then show "getVehicleRiskScore pf rt d vehicleId = (Inl (NotFoundException ''Vehicle not found''), d)"
    by (simp add: getVehicleRiskScore_def)
next
  assume "tripId \<notin> trip_visibleId ` set (trip d)"
  then have "find (\<lambda>t. trip_visibleId t = tripId) (trip d) = None"
    by (auto simp: find_None_iff)
  then show "getTripRiskForecast rt d tripId = (Inl (NotFoundException ''Trip not found''), d)"
    by (simp add: getTripRiskForecast_def)
qed

text \<open>The sample fleet has no vehicle \<open>vehicle-trk-999\<close> and no trip \<open>trip-999\<close>.\<close>

theorem unknown_subject_NotFound_witness:
  "getVehicleRiskScore idealPlatform sampleRuntime fleetDb ''vehicle-trk-999''
     = (Inl (NotFoundException ''Vehicle not found''), fleetDb)
   \<and> getTripRiskForecast sampleRuntime fleetDb ''trip-999''
     = (Inl (NotFoundException ''Trip not found''), fleetDb)"
  using unknown_subject_NotFound
    [where vehicleId = "''vehicle-trk-999''" and tripId = "''trip-999''" and d = fleetDb
       and rt = sampleRuntime and pf = idealPlatform]
  by (simp add: fleetDb_def truck_def plannedTrip_def lateTrip_def)

subsection \<open>The delay factor\<close>

lemma delayMinutes_code:
  "delayMinutes (calculateDelayFactor now plannedEnd actualEnd st) =
     (if st = ''active''
      then (if now > plannedEnd
            then Math_round ((real_of_int now - real_of_int plannedEnd) / (1000 * 60)) else 0)
      else (case actualEnd of
              Some e \<Rightarrow> if e > plannedEnd
                        then Math_round ((real_of_int e - real_of_int plannedEnd) / (1000 * 60)) else 0
            | None \<Rightarrow> 0))"
  by (simp add: calculateDelayFactor_def Let_def)

lemma delayMinutes_eq:
  "delayMinutes (calculateDelayFactor now plannedEnd actualEnd st) =
     (if st = ''active''
      then Math_round (max 0 (real_of_int (now - plannedEnd) / 60000))
      else case actualEnd of
             Some e \<Rightarrow> if e > plannedEnd then Math_round (real_of_int (e - plannedEnd) / 60000) else 0
           | None \<Rightarrow> 0)"
proof (cases "now > plannedEnd")
  case True
  then have "max 0 (real_of_int (now - plannedEnd) / 60000) = real_of_int (now - plannedEnd) / 60000"
    by simp
  with True show ?thesis
    by (simp add: delayMinutes_code split: option.splits)
next
  case False
  then have "max 0 (real_of_int (now - plannedEnd) / 60000) = 0"
    by (simp add: max_def divide_le_0_iff)
  with False show ?thesis
    by (simp add: delayMinutes_code Math_round_0 split: option.splits)
qed

lemma delay_score_eq:
  "score (calculateDelayFactor now plannedEnd actualEnd st) =
     (let delay = delayMinutes (calculateDelayFactor now plannedEnd actualEnd st)
      in if delay > 120 then 25 else if delay > 60 then 20 else if delay > 30 then 15
         else if delay > 10 then Math_round (delay / 60 * 15) else 0)"
  by (simp add: calculateDelayFactor_def Let_def)

lemma delay_reason_iff:
  "reason (calculateDelayFactor now plannedEnd actualEnd st) \<noteq> None \<longleftrightarrow>
     delayMinutes (calculateDelayFactor now plannedEnd actualEnd st) > 0"
  by (simp add: calculateDelayFactor_def Let_def)

lemma delay_on_time:
  "st \<noteq> ''active'' \<Longrightarrow>
   calculateDelayFactor now plannedEnd (Some plannedEnd) st = \<lparr> score = 0, reason = None, delayMinutes = 0 \<rparr>"
  by (simp add: calculateDelayFactor_def)


lemma delayMinutes_int_nonneg:
  "\<exists>k\<ge>0. delayMinutes (calculateDelayFactor now plannedEnd actualEnd st) = of_int k"
proof -
  have r: "\<exists>k\<ge>0. Math_round x = of_int k" if "0 \<le> x" for x
    using that Math_round_nonneg [of x] unfolding Math_round_def
    by (intro exI [of _ "\<lfloor>x + 1 / 2\<rfloor>"]) simp
  have z: "\<exists>k\<ge>0. (0::real) = of_int k"
    by (intro exI [of _ 0]) simp
  show ?thesis
    unfolding delayMinutes_code using z
    by (auto intro!: r split: option.splits)
qed

text \<open>
  C6, as stated, fails: the delay is a whole number of minutes. A trip that is active
  twenty seconds after its planned end is a third of a minute late, yet its delay is 0 and
  no reason is emitted.
\<close>

theorem delay_unrounded_counterexample:
  "delayMinutes (calculateDelayFactor 20000 0 None ''active'') = 0
   \<and> reason (calculateDelayFactor 20000 0 None ''active'') = None
   \<and> max 0 ((real_of_int 20000 - real_of_int 0) / (1000 * 60)) = 1 / 3"
  by (simp add: calculateDelayFactor_def Math_round_def)

text \<open>
  C6, amended. The delay is rounded to the nearest whole minute (a tie upwards):
  for an active trip it is the rounding of max(0, now - planned_end) in minutes, otherwise
  the rounding of actual_end - planned_end when actual_end exists and exceeds planned_end,
  otherwise 0. It is a non-negative integer. The score is 25 above 120, 20 above 60,
  15 above 30, round(delay / 60 * 15) above 10 and 0 otherwise, and a reason is emitted
  exactly when the delay is positive. A completed trip whose actual end is its planned end
  has delay 0, score 0 and no reason.
\<close>

theorem delay_factor_rounded:
  "(let f = calculateDelayFactor now plannedEnd actualEnd st; delay = delayMinutes f
    in delay =
         (if st = ''active''
          then Math_round (max 0 (real_of_int (now - plannedEnd) / 60000))
          else case actualEnd of
                 Some e \<Rightarrow> if e > plannedEnd
                           then Math_round (real_of_int (e - plannedEnd) / 60000) else 0
               | None \<Rightarrow> 0)
       \<and> 0 \<le> delay \<and> delay \<in> \<int>
       \<and> score f =
           (if delay > 120 then 25 else if delay > 60 then 20 else if delay > 30 then 15
            else if delay > 10 then Math_round (delay / 60 * 15) else 0)
       \<and> (reason f \<noteq> None \<longleftrightarrow> delay > 0))
   \<and> calculateDelayFactor now plannedEnd (Some plannedEnd) ''completed''
       = \<lparr> score = 0, reason = None, delayMinutes = 0 \<rparr>"
proof -
  obtain k where "0 \<le> k"
    and "delayMinutes (calculateDelayFactor now plannedEnd actualEnd st) = of_int k"
    using delayMinutes_int_nonneg by blast
  then have "0 \<le> delayMinutes (calculateDelayFactor now plannedEnd actualEnd st)"
    and "delayMinutes (calculateDelayFactor now plannedEnd actualEnd st) \<in> \<int>"
    by simp_all
  moreover have "calculateDelayFactor now plannedEnd (Some plannedEnd) ''completed''
       = \<lparr> score = 0, reason = None, delayMinutes = 0 \<rparr>"
    by (rule delay_on_time) simp
  ultimately show ?thesis
    using delayMinutes_eq [of now plannedEnd actualEnd st]
      delay_score_eq [of now plannedEnd actualEnd st]
      delay_reason_iff [of now plannedEnd actualEnd st]
    by (simp only: Let_def)
qed

text \<open>
  An active trip 45 minutes past its planned end: delay 45, score 15. A trip that ended
  20 minutes and 20 seconds late: delay 20, score 5.
\<close>

theorem delay_factor_rounded_witness:
  "delayMinutes (calculateDelayFactor 100000000 97300000 None ''active'') = 45
   \<and> score (calculateDelayFactor 100000000 97300000 None ''active'') = 15
   \<and> reason (calculateDelayFactor 100000000 97300000 None ''active'')
       = Some ''Trip is delayed by 45 minutes beyond planned end''
   \<and> delayMinutes (calculateDelayFactor 0 1000000 (Some 2220000) ''completed'') = 20
   \<and> score (calculateDelayFactor 0 1000000 (Some 2220000) ''completed'') = 5"
  using delay_factor_rounded [of 100000000 97300000 None "''active''"]
    delay_factor_rounded [of 0 1000000 "Some 2220000" "''completed''"]
  by (simp add: calculateDelayFactor_def Math_round_def intToString_def digit_def)

subsection \<open>The trip forecast\<close>

lemma newDate_of_int: "newDate (of_int k) = k"
  by (simp add: newDate_def)

lemma trip_forecast_unfold:
  assumes "find (\<lambda>t. trip_visibleId t = tripId) (trip d) = Some t"
  shows "getTripRiskForecast rt d tripId =
     (let df = calculateDelayFactor (clock rt 0) (planned_end t) (actual_end t) (status t);
          veh = find (\<lambda>v. vehicle_visibleId v = trip_vehicle_id t) (vehicle d);
          tf = calculateTempDeviation (numberToString rt) (avg_temp_recorded t)
                  (case veh of Some v \<Rightarrow> min_temp v | None \<Rightarrow> - 25)
                  (case veh of Some v \<Rightarrow> max_temp v | None \<Rightarrow> - 15);
          vf = calculateViolationFactor d tripId;
          sf = calculateTempSpikes d tripId;
          rs = pushReason (pushReason (pushReason (pushReason [] (reason tf)) (reason vf))
                 (reason df)) (reason sf);
          sc = min (Math_round (score tf + score vf + score df + score sf)) 100;
          eta = (if status t = ''active''
                 then newDate (real_of_int (planned_end t) + delayMinutes df * 60 * 1000)
                 else (case actual_end t of Some e \<Rightarrow> e | None \<Rightarrow> planned_end t))
      in (Inr \<lparr> dto_score = sc, dto_level = scoreToLevel sc,
                 dto_reasons = (if rs = [] then [''All trip metrics are within normal range''] else rs),
                 predicted_eta = Some eta, expected_delay_minutes = delayMinutes df \<rparr>,
          d\<lparr> tripRiskSnapshot := tripRiskSnapshot d @
               [\<lparr> trs_visibleId = uuidv4 rt, trs_trip_id = tripId, trs_score = sc,
                  trs_level = scoreToLevel sc, trs_predicted_eta = eta,
                  trs_expected_delay_minutes = delayMinutes df,
                  trs_calculated_at = clock rt 1 \<rparr>] \<rparr>))"
  using assms by (simp add: getTripRiskForecast_def storeTripRiskSnapshot_def Let_def)

lemma trip_forecast_success:
  assumes "getTripRiskForecast rt d tripId = (Inr r, d')"
  shows "\<exists>t. find (\<lambda>t. trip_visibleId t = tripId) (trip d) = Some t"
  using assms by (cases "find (\<lambda>t. trip_visibleId t = tripId) (trip d)")
    (simp_all add: getTripRiskForecast_def)

lemma trip_forecast_eta:
  assumes found: "find (\<lambda>t. trip_visibleId t = tripId) (trip d) = Some t"
      and call: "getTripRiskForecast rt d tripId = (Inr r, d')"
  shows "expected_delay_minutes r =
           delayMinutes (calculateDelayFactor (clock rt 0) (planned_end t) (actual_end t) (status t))"
    and "predicted_eta r =
           Some (if status t = ''active''
                 then newDate (real_of_int (planned_end t) + expected_delay_minutes r * 60 * 1000)
                 else (case actual_end t of Some e \<Rightarrow> e | None \<Rightarrow> planned_end t))"
    and "tripRiskSnapshot d' = tripRiskSnapshot d @
           [\<lparr> trs_visibleId = uuidv4 rt, trs_trip_id = tripId, trs_score = dto_score r,
              trs_level = dto_level r, trs_predicted_eta = the (predicted_eta r),
              trs_expected_delay_minutes = expected_delay_minutes r,
              trs_calculated_at = clock rt 1 \<rparr>]"
proof -
  have r: "Inr r = fst (getTripRiskForecast rt d tripId)"
    and d': "d' = snd (getTripRiskForecast rt d tripId)"
    using call by simp_all
  show "expected_delay_minutes r =
           delayMinutes (calculateDelayFactor (clock rt 0) (planned_end t) (actual_end t) (status t))"
    using r unfolding trip_forecast_unfold [OF found] Let_def by simp
  show "predicted_eta r =
           Some (if status t = ''active''
                 then newDate (real_of_int (planned_end t) + expected_delay_minutes r * 60 * 1000)
                 else (case actual_end t of Some e \<Rightarrow> e | None \<Rightarrow> planned_end t))"
    using r unfolding trip_forecast_unfold [OF found] Let_def by simp
  show "tripRiskSnapshot d' = tripRiskSnapshot d @
           [\<lparr> trs_visibleId = uuidv4 rt, trs_trip_id = tripId, trs_score = dto_score r,
              trs_level = dto_level r, trs_predicted_eta = the (predicted_eta r),
              trs_expected_delay_minutes = expected_delay_minutes r,
              trs_calculated_at = clock rt 1 \<rparr>]"
    using r unfolding d' trip_forecast_unfold [OF found] Let_def by simp
qed

lemma late_trip_run:
  "getTripRiskForecast sampleRuntime fleetDb ''trip-002'' =
     (Inr \<lparr> dto_score = 15, dto_level = LOW,
            dto_reasons = [''Trip is delayed by 45 minutes beyond planned end''],
            predicted_eta = Some 100000000, expected_delay_minutes = 45 \<rparr>,
      fleetDb \<lparr> tripRiskSnapshot :=
        [\<lparr> trs_visibleId = ''snapshot-1'', trs_trip_id = ''trip-002'', trs_score = 15,
           trs_level = LOW, trs_predicted_eta = 100000000, trs_expected_delay_minutes = 45,
           trs_calculated_at = 100000001 \<rparr>] \<rparr>)"
  by (simp add: getTripRiskForecast_def sample_defs calculateTempDeviation_def
      calculateViolationFactor_def calculateDelayFactor_def calculateTempSpikes_def
      spikeReadings_def storeTripRiskSnapshot_def pushReason_def scoreToLevel_def
      Math_round_def newDate_def intToString_def digit_def Let_def)


text \<open>
  C8. For the trip \<open>t\<close> with the given id, a successful forecast returns as predicted
  completion: planned_end plus the expected delay (a whole number of minutes, here in
  milliseconds) when the status is active, otherwise actual_end when present, otherwise
  planned_end; and the snapshot it appends carries the same time.
\<close>

theorem projected_completion:
  assumes found: "find (\<lambda>t. trip_visibleId t = tripId) (trip d) = Some t"
      and call: "getTripRiskForecast rt d tripId = (Inr r, d')"
  shows "predicted_eta r =
           Some (if status t = ''active''
                 then planned_end t + \<lfloor>expected_delay_minutes r\<rfloor> * 60000
                 else case actual_end t of Some e \<Rightarrow> e | None \<Rightarrow> planned_end t)
         \<and> real_of_int \<lfloor>expected_delay_minutes r\<rfloor> = expected_delay_minutes r
         \<and> tripRiskSnapshot d' \<noteq> []
         \<and> Some (trs_predicted_eta (last (tripRiskSnapshot d'))) = predicted_eta r"
proof -
  note eta = trip_forecast_eta [OF found call]
  obtain k where k: "expected_delay_minutes r = of_int k"
    using delayMinutes_int_nonneg unfolding eta(1) by blast
  have "real_of_int (planned_end t) + expected_delay_minutes r * 60 * 1000
          = of_int (planned_end t + k * 60000)"
    by (simp add: k)
  then have nd: "newDate (real_of_int (planned_end t) + expected_delay_minutes r * 60 * 1000)
                   = planned_end t + k * 60000"
    by (simp only: newDate_of_int)
  have 1: "predicted_eta r =
           Some (if status t = ''active''
                 then planned_end t + \<lfloor>expected_delay_minutes r\<rfloor> * 60000
                 else case actual_end t of Some e \<Rightarrow> e | None \<Rightarrow> planned_end t)"
    unfolding eta(2) nd by (simp add: k)
  have 2: "real_of_int \<lfloor>expected_delay_minutes r\<rfloor> = expected_delay_minutes r"
    by (simp add: k)
  have 3: "tripRiskSnapshot d' \<noteq> []"
    unfolding eta(3) by simp
  have 4: "Some (trs_predicted_eta (last (tripRiskSnapshot d'))) = predicted_eta r"
    unfolding eta(3) using 1 by simp
  from 1 2 3 4 show ?thesis by blast
qed




text \<open>The active sample trip, 45 minutes late: the prediction is planned_end + 45 min.\<close>

theorem projected_completion_witness:
  "find (\<lambda>t. trip_visibleId t = ''trip-002'') (trip fleetDb) = Some lateTrip
   \<and> status lateTrip = ''active''
   \<and> predicted_eta (projr (fst (getTripRiskForecast sampleRuntime fleetDb ''trip-002'')))
       = Some (planned_end lateTrip + 45 * 60000)
   \<and> map trs_predicted_eta
         (tripRiskSnapshot (snd (getTripRiskForecast sampleRuntime fleetDb ''trip-002'')))
       = [planned_end lateTrip + 45 * 60000]"
  using projected_completion [OF _ late_trip_run, of lateTrip]
  by (simp add: late_trip_run) (simp add: sample_defs)

subsection \<open>The trip snapshot\<close>

lemma planned_trip_run:
  "getTripRiskForecast sampleRuntime fleetDb ''trip-001'' =
     (Inr \<lparr> dto_score = 5, dto_level = LOW,
            dto_reasons = [''No temperature readings recorded yet''],
            predicted_eta = Some 99000000, expected_delay_minutes = 0 \<rparr>,
      fleetDb \<lparr> tripRiskSnapshot :=
        [\<lparr> trs_visibleId = ''snapshot-1'', trs_trip_id = ''trip-001'', trs_score = 5,
           trs_level = LOW, trs_predicted_eta = 99000000, trs_expected_delay_minutes = 0,
           trs_calculated_at = 100000001 \<rparr>] \<rparr>)"
  by (simp add: getTripRiskForecast_def sample_defs calculateTempDeviation_def
      calculateViolationFactor_def calculateDelayFactor_def calculateTempSpikes_def
      spikeReadings_def storeTripRiskSnapshot_def pushReason_def scoreToLevel_def
      Math_round_def newDate_def intToString_def digit_def Let_def)

lemma planned_trip_run2:
  "getTripRiskForecast sampleRuntime fleetDb2 ''trip-001'' =
     (Inr \<lparr> dto_score = 5, dto_level = LOW,
            dto_reasons = [''1 violation(s) detected (1 unresolved)''],
            predicted_eta = Some 99000000, expected_delay_minutes = 0 \<rparr>,
      fleetDb2 \<lparr> tripRiskSnapshot :=
        [\<lparr> trs_visibleId = ''snapshot-1'', trs_trip_id = ''trip-001'', trs_score = 5,
           trs_level = LOW, trs_predicted_eta = 99000000, trs_expected_delay_minutes = 0,
           trs_calculated_at = 100000001 \<rparr>] \<rparr>)"
  by (simp add: getTripRiskForecast_def sample_defs calculateTempDeviation_def
      calculateViolationFactor_def calculateDelayFactor_def calculateTempSpikes_def
      spikeReadings_def storeTripRiskSnapshot_def pushReason_def scoreToLevel_def
      Math_round_def newDate_def intToString_def digit_def Let_def)

text \<open>
  C2, as stated, fails: the trip snapshot has no field for the reasons, and
  \<open>storeTripRiskSnapshot\<close> is not given them. Two forecasts of the first sample trip, one
  on each sample fleet, return different reasons and append the same snapshot, so the
  reasons cannot be read back from what is persisted.
\<close>

theorem trip_snapshot_drops_reasons:
  "fst (getTripRiskForecast sampleRuntime fleetDb ''trip-001'') =
     Inr \<lparr> dto_score = 5, dto_level = LOW,
           dto_reasons = [''No temperature readings recorded yet''],
           predicted_eta = Some 99000000, expected_delay_minutes = 0 \<rparr>
   \<and> fst (getTripRiskForecast sampleRuntime fleetDb2 ''trip-001'') =
     Inr \<lparr> dto_score = 5, dto_level = LOW,
           dto_reasons = [''1 violation(s) detected (1 unresolved)''],
           predicted_eta = Some 99000000, expected_delay_minutes = 0 \<rparr>
   \<and> tripRiskSnapshot (snd (getTripRiskForecast sampleRuntime fleetDb ''trip-001''))
       = tripRiskSnapshot (snd (getTripRiskForecast sampleRuntime fleetDb2 ''trip-001''))"
  by (simp add: planned_trip_run planned_trip_run2)

text \<open>
  C2, amended. A successful forecast changes the database by appending one trip snapshot,
  which holds the trip id, the score and the level returned, the predicted completion
  time and the expected delay returned, and the clock reading taken when it is stored.
  The reasons are returned to the caller only.
\<close>

theorem trip_snapshot_layout:
  assumes call: "getTripRiskForecast rt d tripId = (Inr r, d')"
  shows "d' = d \<lparr> tripRiskSnapshot := tripRiskSnapshot d @
           [\<lparr> trs_visibleId = uuidv4 rt, trs_trip_id = tripId, trs_score = dto_score r,
              trs_level = dto_level r, trs_predicted_eta = the (predicted_eta r),
              trs_expected_delay_minutes = expected_delay_minutes r,
              trs_calculated_at = clock rt 1 \<rparr>] \<rparr>"
proof -
  obtain t where found: "find (\<lambda>t. trip_visibleId t = tripId) (trip d) = Some t"
    using trip_forecast_success [OF call] by blast
  have r: "Inr r = fst (getTripRiskForecast rt d tripId)"
    and d': "d' = snd (getTripRiskForecast rt d tripId)"
    using call by simp_all
  show ?thesis
    using r unfolding d' trip_forecast_unfold [OF found] Let_def by simp
qed

text \<open>The snapshot appended for the late sample trip.\<close>

theorem trip_snapshot_layout_witness:
  "tripRiskSnapshot (snd (getTripRiskForecast sampleRuntime fleetDb ''trip-002'')) =
     [\<lparr> trs_visibleId = ''snapshot-1'', trs_trip_id = ''trip-002'', trs_score = 15,
        trs_level = LOW, trs_predicted_eta = 100000000, trs_expected_delay_minutes = 45,
        trs_calculated_at = 100000001 \<rparr>]"
  using trip_snapshot_layout [OF late_trip_run]
  by (simp add: late_trip_run) (simp add: sample_defs)

subsection \<open>The distance without rounding\<close>

text \<open>
  On the idealised platform \<open>haversineDistance\<close> is never NaN and is the great-circle
  distance of the Haversine formula: the quantity \<open>a\<close> lies between 0 and 1, and the
  angle \<^verbatim>\<open>atan2(sqrt(a), sqrt(1 - a))\<close> is the arc sine of \<open>sqrt(a)\<close>.
\<close>

lemma haversineA_form:
  "haversineA lat1 lon1 lat2 lon2 =
     (1 - cos (radians lat2 - radians lat1)) / 2
     + cos (radians lat1) * cos (radians lat2) * (sin (radians (lon2 - lon1) / 2))\<^sup>2"
proof -
  let ?p = "radians lat1" and ?q = "radians lat2"
  have dlat: "radians (lat2 - lat1) = ?q - ?p"
    by (simp add: radians_def left_diff_distrib)
  have "2 * ((?q - ?p) / 2) = ?q - ?p"
    by simp
  then have "cos (?q - ?p) = 1 - 2 * (sin ((?q - ?p) / 2))\<^sup>2"
    using cos_double_sin [of "(?q - ?p) / 2"] by (simp only:)
  then have "(sin ((?q - ?p) / 2))\<^sup>2 = (1 - cos (?q - ?p)) / 2"
    by simp
  then show ?thesis
    unfolding haversineA_def dlat by (simp only:)
qed

lemma sin_half_square_bounds:
  "0 \<le> (sin (x::real))\<^sup>2" "(sin x)\<^sup>2 \<le> 1"
  using abs_sin_le_one [of x] by (simp_all add: power_le_one_iff abs_square_le_1)

lemma haversineA_nonneg: "0 \<le> haversineA lat1 lon1 lat2 lon2"
proof -
  let ?p = "radians lat1" and ?q = "radians lat2"
  let ?s = "(sin (radians (lon2 - lon1) / 2))\<^sup>2"
  note s01 = sin_half_square_bounds [of "radians (lon2 - lon1) / 2"]
  show ?thesis
  proof (cases "0 \<le> cos ?p * cos ?q")
    case True
    have "0 \<le> (1 - cos (?q - ?p)) / 2"
      using cos_le_one [of "?q - ?p"] by simp
    moreover have "0 \<le> cos ?p * cos ?q * ?s"
      using True s01 by simp
    ultimately show ?thesis unfolding haversineA_form by linarith
  next
    case False
    then have "cos ?p * cos ?q * 1 \<le> cos ?p * cos ?q * ?s"
      using s01 by (intro mult_left_mono_neg) simp_all
    moreover have "(1 - cos (?q - ?p)) / 2 + cos ?p * cos ?q = (1 + cos (?p + ?q)) / 2"
      by (simp add: cos_diff cos_add field_simps)
    moreover have "0 \<le> (1 + cos (?p + ?q)) / 2"
    proof -
      have "0 \<le> 1 + cos (?p + ?q)"
        using cos_ge_minus_one [of "?p + ?q"] by linarith
      then show ?thesis by simp
    qed
    ultimately show ?thesis unfolding haversineA_form by linarith
  qed
qed

lemma haversineA_le_one: "haversineA lat1 lon1 lat2 lon2 \<le> 1"
proof -
  let ?p = "radians lat1" and ?q = "radians lat2"
  let ?s = "(sin (radians (lon2 - lon1) / 2))\<^sup>2"
  note s01 = sin_half_square_bounds [of "radians (lon2 - lon1) / 2"]
  show ?thesis
  proof (cases "cos ?p * cos ?q \<le> 0")
    case True
    have "(1 - cos (?q - ?p)) / 2 \<le> 1"
    proof -
      have "1 - cos (?q - ?p) \<le> 2"
        using cos_ge_minus_one [of "?q - ?p"] by linarith
      then show ?thesis by simp
    qed
    moreover have "cos ?p * cos ?q * ?s \<le> 0"
      using True s01 by (simp add: mult_nonpos_nonneg)
    ultimately show ?thesis unfolding haversineA_form by linarith
  next
    case False
    then have "cos ?p * cos ?q * ?s \<le> cos ?p * cos ?q * 1"
      using s01 by (intro mult_left_mono) simp_all
    moreover have "(1 - cos (?q - ?p)) / 2 + cos ?p * cos ?q = (1 + cos (?p + ?q)) / 2"
      by (simp add: cos_diff cos_add field_simps)
    moreover have "(1 + cos (?p + ?q)) / 2 \<le> 1"
    proof -
      have "1 + cos (?p + ?q) \<le> 2"
        using cos_le_one [of "?p + ?q"] by linarith
      then show ?thesis by simp
    qed
    ultimately show ?thesis unfolding haversineA_form by linarith
  qed
qed

lemma arctan2_sqrt: 
  assumes "0 \<le> a" "a \<le> 1"
  shows "arctan2 (sqrt a) (sqrt (1 - a)) = arcsin (sqrt a)"
proof (cases "a = 1")
  case True
  then show ?thesis by (simp add: arctan2_def)
next
  case False
  define y where "y = sqrt a"
  have y: "0 \<le> y" "y < 1"
    using assms False by (simp_all add: y_def)
  have "y\<^sup>2 = a"
    using assms by (simp add: y_def)
  then have x: "sqrt (1 - a) = cos (arcsin y)"
    using y cos_arcsin [of y] by simp
  have b: "- (pi / 2) < arcsin y" "arcsin y < pi / 2"
    using arcsin_lt_bounded [of y] y by simp_all
  have pos: "0 < cos (arcsin y)"
    using b by (intro cos_gt_zero_pi)
  have "arctan (y / cos (arcsin y)) = arctan (tan (arcsin y))"
    using y by (simp add: tan_def)
  also have "\<dots> = arcsin y"
    using b by (intro arctan_tan)
  finally show ?thesis
    using pos by (simp add: arctan2_def x y_def [symmetric])
qed

lemma haversineDistance_ideal:
  "haversineDistance idealPlatform lat1 lon1 lat2 lon2 = Num (greatCircleKm lat1 lon1 lat2 lon2)"
proof -
  have a: "fadd idealPlatform
                (fmul idealPlatform (Math_sin idealPlatform (fdiv idealPlatform
                   (toRadians idealPlatform (fsub idealPlatform lat2 lat1)) 2))
                   (Math_sin idealPlatform (fdiv idealPlatform
                   (toRadians idealPlatform (fsub idealPlatform lat2 lat1)) 2)))
                (fmul idealPlatform
                   (fmul idealPlatform
                      (fmul idealPlatform (Math_cos idealPlatform (toRadians idealPlatform lat1))
                         (Math_cos idealPlatform (toRadians idealPlatform lat2)))
                      (Math_sin idealPlatform (fdiv idealPlatform
                         (toRadians idealPlatform (fsub idealPlatform lon2 lon1)) 2)))
                   (Math_sin idealPlatform (fdiv idealPlatform
                         (toRadians idealPlatform (fsub idealPlatform lon2 lon1)) 2)))
           = haversineA lat1 lon1 lat2 lon2"
    by (simp add: fadd_def fmul_def fdiv_def fsub_def toRadians_def idealPlatform_def
        haversineA_def radians_def power2_eq_square mult.assoc)
  show ?thesis
    unfolding haversineDistance_def Let_def a
    using haversineA_nonneg [of lat1 lon1 lat2 lon2] haversineA_le_one [of lat1 lon1 lat2 lon2]
    by (simp add: Math_sqrt_def fsub_def fmul_def idealPlatform_def greatCircleKm_def
        arctan2_sqrt)
qed

lemma greatCircleKm_nonneg: "0 \<le> greatCircleKm lat1 lon1 lat2 lon2"
  unfolding greatCircleKm_def
  using haversineA_nonneg [of lat1 lon1 lat2 lon2] haversineA_le_one [of lat1 lon1 lat2 lon2]
  by (simp add: arcsin_nonneg real_sqrt_le_1_iff)

lemma greatCircleKm_same: "greatCircleKm lat lon lat lon = 0"
  by (simp add: greatCircleKm_def haversineA_def radians_def)

lemma greatCircleKm_meridian:
  assumes "0 \<le> lat2 - lat1" "lat2 - lat1 \<le> 180"
  shows "greatCircleKm lat1 lon lat2 lon = 6371 * radians (lat2 - lat1)"
proof -
  define th where "th = radians (lat2 - lat1) / 2"
  have "(lat2 - lat1) * (pi / 180) \<le> 180 * (pi / 180)"
    using assms by (intro mult_right_mono) simp_all
  then have th: "0 \<le> th" "th \<le> pi / 2"
    using assms by (simp_all add: th_def radians_def)
  have "haversineA lat1 lon lat2 lon = (sin th)\<^sup>2"
    by (simp add: haversineA_def th_def radians_def)
  moreover have "0 \<le> sin th"
    using th by (intro sin_ge_zero) simp_all
  ultimately have "sqrt (haversineA lat1 lon lat2 lon) = sin th"
    by simp
  moreover have "arcsin (sin th) = th"
    using th by (intro arcsin_sin) simp_all
  ultimately show ?thesis
    by (simp add: greatCircleKm_def th_def)
qed


subsection \<open>The sample vehicle\<close>

lemma haversineDistance_same: "haversineDistance idealPlatform lat lon lat lon = Num 0"
  by (simp add: haversineDistance_ideal greatCircleKm_same)

lemma fadd_ideal [simp]: "fadd idealPlatform x y = x + y"
  by (simp add: fadd_def idealPlatform_def)

lemma sample_tempVariance:
  "calculateTempVariance idealPlatform (sampleClock 0) fleetDb ''vehicle-trk-001''
     = \<lparr> score = 5, reason = Some ''No recent sensor readings in last 6 hours'' \<rparr>"
  by (simp add: calculateTempVariance_def tempVariancePipeline_def sample_defs)

lemma natToString_Suc:
  "natToString (Suc n) =
     (if Suc n < 10 then [digit (Suc n)]
      else natToString (Suc n div 10) @ [digit (Suc n mod 10)])"
  by (rule natToString.simps)

lemma sample_alert:
  "calculateAlertFactor idealPlatform (sampleClock 1) fleetDb ''vehicle-trk-001''
     = \<lparr> score = 15, reason = Some ''3 alert(s) in last 24h (2 critical, 1 warning)'' \<rparr>"
  by (simp add: calculateAlertFactor_def alertPipeline_def sample_defs digit_def
      natToString_Suc)

lemma sample_gap:
  "calculateUpdateGap (sampleClock 2) (last_update truck)
     = \<lparr> score = 20, reason = Some ''Vehicle data is 61 minutes stale'' \<rparr>"
  by (simp add: calculateUpdateGap_def sample_defs Math_round_def intToString_def digit_def)

lemma sample_gps:
  "gpsReadings fleetDb ''vehicle-trk-001'' (hoursBefore idealPlatform 6 (sampleClock 3))
     = sensorReading fleetDb"
  by (simp add: gpsReadings_def sample_defs)

lemma sample_distance:
  "calculateDistanceFactor idealPlatform (sampleClock 3) fleetDb ''vehicle-trk-001''
     = \<lparr> score = Num 10,
         reason = Some ''Vehicle appears stationary despite active readings'' \<rparr>"
  unfolding calculateDistanceFactor_def Let_def sample_gps
  by (simp add: fleetDb_def gpsPoint_def haversineDistance_same)

lemma vehicle_run:
  "getVehicleRiskScore idealPlatform sampleRuntime fleetDb ''vehicle-trk-001'' =
     (Inr \<lparr> dto_score = Num 50, dto_level = MEDIUM,
            dto_reasons = [''No recent sensor readings in last 6 hours'',
                           ''3 alert(s) in last 24h (2 critical, 1 warning)'',
                           ''Vehicle data is 61 minutes stale'',
                           ''Vehicle appears stationary despite active readings''] \<rparr>,
      fleetDb \<lparr> vehicleRiskSnapshot :=
        [\<lparr> vrs_visibleId = ''snapshot-1'', vrs_vehicle_id = ''vehicle-trk-001'',
           vrs_score = Num 50, vrs_level = MEDIUM,
           vrs_reasons = [''No recent sensor readings in last 6 hours'',
                          ''3 alert(s) in last 24h (2 critical, 1 warning)'',
                          ''Vehicle data is 61 minutes stale'',
                          ''Vehicle appears stationary despite active readings''],
           vrs_calculated_at = 100000004 \<rparr>] \<rparr>)"
proof -
  have f: "find (\<lambda>v. vehicle_visibleId v = ''vehicle-trk-001'') (vehicle fleetDb) = Some truck"
    by (simp add: fleetDb_def truck_def)
  have c: "clock sampleRuntime = sampleClock" "uuidv4 sampleRuntime = ''snapshot-1''"
    by (simp_all add: sampleRuntime_def)
  show ?thesis
    unfolding getVehicleRiskScore_def f c option.case Let_def
      sample_tempVariance sample_alert sample_gap sample_distance
    by (simp add: pushReason_def Math_round_def scoreToLevel_def storeVehicleRiskSnapshot_def
        sampleClock_def addScore_def roundAndCap_def levelOf_def) (simp add: fleetDb_def)
qed


subsection \<open>Determinism of the vehicle score\<close>

lemma factor_frame:
  "calculateTempVariance pf now (d\<lparr>vehicleRiskSnapshot := xs\<rparr>) v = calculateTempVariance pf now d v"
  "calculateAlertFactor pf now (d\<lparr>vehicleRiskSnapshot := xs\<rparr>) v = calculateAlertFactor pf now d v"
  "calculateDistanceFactor pf now (d\<lparr>vehicleRiskSnapshot := xs\<rparr>) v = calculateDistanceFactor pf now d v"
  by (simp_all add: calculateTempVariance_def tempVariancePipeline_def calculateAlertFactor_def
      alertPipeline_def calculateDistanceFactor_def gpsReadings_def)

lemma vehicle_fst_frame:
  assumes "\<forall>k<4. clock rt1 k = clock rt2 k"
  shows "fst (getVehicleRiskScore pf rt2 (d\<lparr>vehicleRiskSnapshot := xs\<rparr>) v)
           = fst (getVehicleRiskScore pf rt1 d v)"
proof -
  have c: "clock rt1 0 = clock rt2 0" "clock rt1 (Suc 0) = clock rt2 (Suc 0)"
    "clock rt1 2 = clock rt2 2" "clock rt1 3 = clock rt2 3"
    using assms by simp_all
  show ?thesis
    by (cases "find (\<lambda>x. vehicle_visibleId x = v) (vehicle d)")
       (simp_all add: getVehicleRiskScore_def factor_frame c Let_def)
qed

lemma vehicle_snd:
  "snd (getVehicleRiskScore pf rt d v) =
     (case fst (getVehicleRiskScore pf rt d v) of
        Inl e \<Rightarrow> d
      | Inr r \<Rightarrow> d\<lparr> vehicleRiskSnapshot := vehicleRiskSnapshot d @
                 [\<lparr> vrs_visibleId = uuidv4 rt, vrs_vehicle_id = v, vrs_score = dto_score r,
                    vrs_level = dto_level r, vrs_reasons = dto_reasons r,
                    vrs_calculated_at = clock rt 4 \<rparr>] \<rparr>)"
  by (cases "find (\<lambda>x. vehicle_visibleId x = v) (vehicle d)")
     (simp_all add: getVehicleRiskScore_def storeVehicleRiskSnapshot_def Let_def)

text \<open>
  C9. Two invocations for the same vehicle id in immediate succession, the second on the
  database the first has left, with clocks that agree on the four readings the factors
  take (they may differ on the fifth, taken when the snapshot is stored), have the same
  outcome: the same exception, or the same score, level and reasons. In the second case
  the two snapshots appended differ at most in their identifier and their calculated-at
  time.
\<close>

theorem getVehicleRiskScore_deterministic:
  assumes clocks: "\<forall>k<4. clock rt1 k = clock rt2 k"
      and first: "getVehicleRiskScore pf rt1 d vehicleId = (res1, d1)"
      and second: "getVehicleRiskScore pf rt2 d1 vehicleId = (res2, d2)"
  shows "res2 = res1
         \<and> (\<forall>r. res1 = Inr r \<longrightarrow>
               vehicleRiskSnapshot d2 = vehicleRiskSnapshot d @
                 [\<lparr> vrs_visibleId = uuidv4 rt1, vrs_vehicle_id = vehicleId,
                    vrs_score = dto_score r, vrs_level = dto_level r,
                    vrs_reasons = dto_reasons r, vrs_calculated_at = clock rt1 4 \<rparr>,
                  \<lparr> vrs_visibleId = uuidv4 rt2, vrs_vehicle_id = vehicleId,
                    vrs_score = dto_score r, vrs_level = dto_level r,
                    vrs_reasons = dto_reasons r, vrs_calculated_at = clock rt2 4 \<rparr>])"
proof -
  have res1: "res1 = fst (getVehicleRiskScore pf rt1 d vehicleId)"
    and d1: "d1 = snd (getVehicleRiskScore pf rt1 d vehicleId)"
    using first by simp_all
  have res2: "res2 = fst (getVehicleRiskScore pf rt2 d1 vehicleId)"
    and d2: "d2 = snd (getVehicleRiskScore pf rt2 d1 vehicleId)"
    using second by simp_all
  have "\<exists>xs. d1 = d\<lparr>vehicleRiskSnapshot := xs\<rparr>"
  proof (cases "fst (getVehicleRiskScore pf rt1 d vehicleId)")
    case (Inl e)
    then have "d1 = d\<lparr>vehicleRiskSnapshot := vehicleRiskSnapshot d\<rparr>"
      unfolding d1 vehicle_snd by simp
    then show ?thesis ..
  next
    case (Inr r)
    then show ?thesis
      unfolding d1 vehicle_snd by (simp only: sum.case) (rule exI, rule refl)
  qed
  then obtain xs where shape: "d1 = d\<lparr>vehicleRiskSnapshot := xs\<rparr>" ..
  have same: "res2 = res1"
    unfolding res2 res1 shape by (rule vehicle_fst_frame [OF clocks])
  moreover have "vehicleRiskSnapshot d2 = vehicleRiskSnapshot d @
                 [\<lparr> vrs_visibleId = uuidv4 rt1, vrs_vehicle_id = vehicleId,
                    vrs_score = dto_score r, vrs_level = dto_level r,
                    vrs_reasons = dto_reasons r, vrs_calculated_at = clock rt1 4 \<rparr>,
                  \<lparr> vrs_visibleId = uuidv4 rt2, vrs_vehicle_id = vehicleId,
                    vrs_score = dto_score r, vrs_level = dto_level r,
                    vrs_reasons = dto_reasons r, vrs_calculated_at = clock rt2 4 \<rparr>]"
    if r: "res1 = Inr r" for r
  proof -
    have a: "fst (getVehicleRiskScore pf rt1 d vehicleId) = Inr r"
      using r res1 by simp
    have b: "fst (getVehicleRiskScore pf rt2 d1 vehicleId) = Inr r"
      using r same res2 by simp
    have "vehicleRiskSnapshot d1 = vehicleRiskSnapshot d @
                 [\<lparr> vrs_visibleId = uuidv4 rt1, vrs_vehicle_id = vehicleId,
                    vrs_score = dto_score r, vrs_level = dto_level r,
                    vrs_reasons = dto_reasons r, vrs_calculated_at = clock rt1 4 \<rparr>]"
      unfolding d1 vehicle_snd [of pf rt1 d vehicleId] a by simp
    then show ?thesis
      unfolding d2 vehicle_snd [of pf rt2 d1 vehicleId] b by simp
  qed
  ultimately show ?thesis by blast
qed

text \<open>
  The sample truck scored twice, the second time 896 ms later and with a fresh identifier:
  score 50, MEDIUM and four reasons both times.
\<close>

theorem getVehicleRiskScore_deterministic_witness:
  "fst (getVehicleRiskScore idealPlatform sampleRuntime fleetDb ''vehicle-trk-001'') =
     Inr \<lparr> dto_score = Num 50, dto_level = MEDIUM,
           dto_reasons = [''No recent sensor readings in last 6 hours'',
                          ''3 alert(s) in last 24h (2 critical, 1 warning)'',
                          ''Vehicle data is 61 minutes stale'',
                          ''Vehicle appears stationary despite active readings''] \<rparr>
   \<and> fst (getVehicleRiskScore idealPlatform laterRuntime
            (snd (getVehicleRiskScore idealPlatform sampleRuntime fleetDb ''vehicle-trk-001''))
            ''vehicle-trk-001'')
       = fst (getVehicleRiskScore idealPlatform sampleRuntime fleetDb ''vehicle-trk-001'')
   \<and> map (\<lambda>s. (vrs_visibleId s, vrs_score s, vrs_level s, length (vrs_reasons s), vrs_calculated_at s))
         (vehicleRiskSnapshot (snd (getVehicleRiskScore idealPlatform laterRuntime
            (snd (getVehicleRiskScore idealPlatform sampleRuntime fleetDb ''vehicle-trk-001''))
            ''vehicle-trk-001'')))
       = [(''snapshot-1'', Num 50, MEDIUM, 4, 100000004),
          (''snapshot-2'', Num 50, MEDIUM, 4, 100000900)]"
  using getVehicleRiskScore_deterministic
    [of sampleRuntime laterRuntime idealPlatform fleetDb "''vehicle-trk-001''"
        "fst (getVehicleRiskScore idealPlatform sampleRuntime fleetDb ''vehicle-trk-001'')"
        "snd (getVehicleRiskScore idealPlatform sampleRuntime fleetDb ''vehicle-trk-001'')"
        "fst (getVehicleRiskScore idealPlatform laterRuntime
            (snd (getVehicleRiskScore idealPlatform sampleRuntime fleetDb ''vehicle-trk-001''))
            ''vehicle-trk-001'')"
        "snd (getVehicleRiskScore idealPlatform laterRuntime
            (snd (getVehicleRiskScore idealPlatform sampleRuntime fleetDb ''vehicle-trk-001''))
            ''vehicle-trk-001'')"]
  by (simp add: vehicle_run) (simp add: sample_defs)


subsection \<open>The trip score is an integer from 0 to 100\<close>

lemma Ints_min: "a \<in> \<int> \<Longrightarrow> b \<in> \<int> \<Longrightarrow> min a (b::real) \<in> \<int>"
  by (simp add: min_def)

lemma tempDeviation_bounds:
  "0 \<le> score (calculateTempDeviation f a lo hi) \<and> score (calculateTempDeviation f a lo hi) \<le> 30
   \<and> score (calculateTempDeviation f a lo hi) \<in> \<int>"
proof (cases a)
  case None
  then show ?thesis by (simp add: calculateTempDeviation_def)
next
  case (Some avg)
  define dev where "dev = (if avg < lo then lo - avg else if avg > hi then avg - hi else 0)"
  have dev: "0 \<le> dev" by (simp add: dev_def)
  have 1: "0 \<le> Math_round ((dev / 5) * 30)" "0 \<le> Math_round ((dev / 5) * 15)"
    using dev by (auto intro!: Math_round_nonneg)
  have 2: "dev \<le> 5 \<Longrightarrow> Math_round ((dev / 5) * 30) \<le> 30"
    "dev \<le> 2 \<Longrightarrow> Math_round ((dev / 5) * 15) \<le> 30"
    by (auto intro!: Math_round_le_numeral)
  show ?thesis
    using 1 2 unfolding Some
    by (simp add: calculateTempDeviation_def Let_def dev_def [symmetric] Math_round_Ints)
qed

lemma violation_bounds:
  "0 \<le> score (calculateViolationFactor d t) \<and> score (calculateViolationFactor d t) \<le> 25
   \<and> score (calculateViolationFactor d t) \<in> \<int>"
proof -
  define u where "u = length (filter (\<lambda>a. ta_trip_id a = t \<and> is_resolved a = False) (tripAlert d))"
  define n where "n = length (filter (\<lambda>a. ta_trip_id a = t) (tripAlert d))"
  have "u \<le> n"
  proof -
    have "filter (\<lambda>a. ta_trip_id a = t \<and> is_resolved a = False) (tripAlert d)
            = filter (\<lambda>a. is_resolved a = False) (filter (\<lambda>a. ta_trip_id a = t) (tripAlert d))"
      by (simp add: conj_commute)
    then show ?thesis
      unfolding u_def n_def by (simp only: length_filter_le)
  qed
  then have nn: "0 \<le> real u * 5 + real_of_int (int n - int u) * 2"
    by simp
  have "real u * 5 + real_of_int (int n - int u) * 2 = real_of_int (int u * 5 + (int n - int u) * 2)"
    by simp
  then have i: "real u * 5 + real_of_int (int n - int u) * 2 \<in> \<int>"
    by (simp only: Ints_of_int)
  have "score (calculateViolationFactor d t) = min (real u * 5 + real_of_int (int n - int u) * 2) 25"
    by (simp add: calculateViolationFactor_def Let_def u_def n_def)
  then show ?thesis
    using nn i by (auto intro!: Ints_min)
qed

lemma delay_bounds:
  "0 \<le> score (calculateDelayFactor now pe ae st) \<and> score (calculateDelayFactor now pe ae st) \<le> 25
   \<and> score (calculateDelayFactor now pe ae st) \<in> \<int>"
proof -
  define dl where "dl = delayMinutes (calculateDelayFactor now pe ae st)"
  have 1: "0 < dl \<Longrightarrow> 0 \<le> Math_round (dl / 60 * 15)"
    by (intro Math_round_nonneg) simp
  have 2: "dl \<le> 30 \<Longrightarrow> Math_round (dl / 60 * 15) \<le> 25"
    by (intro Math_round_le_numeral) simp
  show ?thesis
    unfolding delay_score_eq Let_def dl_def [symmetric]
    using 1 2 by (auto simp: Math_round_Ints)
qed

lemma spike_bounds:
  "0 \<le> score (calculateTempSpikes d t) \<and> score (calculateTempSpikes d t) \<le> 20
   \<and> score (calculateTempSpikes d t) \<in> \<int>"
proof -
  have r: "0 \<le> Math_round ((real n / 5) * 10)" "n \<le> 5 \<Longrightarrow> Math_round ((real n / 5) * 10) \<le> 20"
    "Math_round ((real n / 5) * 10) \<in> \<int>" for n
    by (auto intro!: Math_round_nonneg Math_round_le_numeral Math_round_Ints)
  show ?thesis
    using r
    by (auto simp: calculateTempSpikes_def Let_def not_less intro!: Ints_min split: prod.splits)
qed


lemma trip_score_value:
  assumes "getTripRiskForecast rt d tripId = (Inr r, d')"
  shows "\<exists>t lo hi. find (\<lambda>t. trip_visibleId t = tripId) (trip d) = Some t
           \<and> dto_score r =
               min (Math_round (score (calculateTempDeviation (numberToString rt)
                                         (avg_temp_recorded t) lo hi)
                                + score (calculateViolationFactor d tripId)
                                + score (calculateDelayFactor (clock rt 0) (planned_end t)
                                           (actual_end t) (status t))
                                + score (calculateTempSpikes d tripId))) 100"
proof -
  obtain t where found: "find (\<lambda>t. trip_visibleId t = tripId) (trip d) = Some t"
    using trip_forecast_success [OF assms] by blast
  have "Inr r = fst (getTripRiskForecast rt d tripId)"
    using assms by simp
  then show ?thesis
    unfolding trip_forecast_unfold [OF found] Let_def using found by auto
qed

lemma total_bounds:
  assumes "0 \<le> a" "0 \<le> b" "0 \<le> c" "0 \<le> e"
  shows "0 \<le> min (Math_round (a + b + c + e)) 100"
    and "min (Math_round (a + b + c + e)) 100 \<le> 100"
    and "min (Math_round (a + b + c + e)) 100 \<in> \<int>"
proof -
  have "0 \<le> Math_round (a + b + c + e)"
    using assms by (intro Math_round_nonneg) simp
  then show "0 \<le> min (Math_round (a + b + c + e)) 100"
    by simp
  show "min (Math_round (a + b + c + e)) 100 \<le> 100"
    by simp
  show "min (Math_round (a + b + c + e)) 100 \<in> \<int>"
    by (intro Ints_min Math_round_Ints) simp
qed

text \<open>
  Each trip factor is non-negative, integral and at most its cap (30, 25, 25, 20), so the
  score of a successful \<open>getTripRiskForecast\<close> is an integer between 0 and 100.
\<close>

lemma trip_score_in_range:
  assumes "getTripRiskForecast rt d tripId = (Inr r, d')"
  shows "0 \<le> dto_score r \<and> dto_score r \<le> 100 \<and> dto_score r \<in> \<int>"
proof -
  obtain t lo hi where "find (\<lambda>t. trip_visibleId t = tripId) (trip d) = Some t" and
    "dto_score r =
       min (Math_round (score (calculateTempDeviation (numberToString rt)
                                 (avg_temp_recorded t) lo hi)
                        + score (calculateViolationFactor d tripId)
                        + score (calculateDelayFactor (clock rt 0) (planned_end t)
                                   (actual_end t) (status t))
                        + score (calculateTempSpikes d tripId))) 100"
    using trip_score_value [OF assms] by blast
  then show ?thesis
    using total_bounds [of "score (calculateTempDeviation (numberToString rt)
                                 (avg_temp_recorded t) lo hi)"
        "score (calculateViolationFactor d tripId)"
        "score (calculateDelayFactor (clock rt 0) (planned_end t) (actual_end t) (status t))"
        "score (calculateTempSpikes d tripId)"]
      tempDeviation_bounds violation_bounds delay_bounds spike_bounds
    by simp
qed


subsection \<open>The distance in double precision\<close>

text \<open>
  The operations of \<open>haversineDistance\<close> on the double platform, one by one, between a
  point 2.5 degrees from the south pole on the meridian 0 and a point 2.5 degrees from the
  north pole on the meridian 180. The sum of the squared sine and the squared cosine is
  rounded to \<open>1 + 2\<^sup>-\<^sup>5\<^sup>2\<close>, so \<^verbatim>\<open>1 - a\<close> is negative and its square root NaN.
\<close>

lemma roundDouble_eval:
  assumes "2 powr (of_int e) \<le> \<bar>x\<bar>" "\<bar>x\<bar> < 2 powr (of_int (e + 1))"
  shows "roundDouble x = of_int (roundHalfEven (x / 2 powr (of_int (e - 52)))) * 2 powr (of_int (e - 52))"
proof -
  have pos: "0 < \<bar>x\<bar>"
    using assms(1) powr_gt_zero [of 2 "of_int e"] by linarith
  then have "x \<noteq> 0" by simp
  moreover have "\<lfloor>log 2 \<bar>x\<bar>\<rfloor> = e"
    using assms pos by (subst floor_log_eq_powr_iff) simp_all
  ultimately show ?thesis
    by (simp add: roundDouble_def Let_def)
qed

lemmas rd_simps = roundHalfEven_def Let_def powr_neg_numeral powr_numeral

lemma rd_175: "roundDouble 175 = 175"
  by (subst roundDouble_eval [where e = 7]) (simp_all add: rd_simps)

lemma rd_180: "roundDouble 180 = 180"
  by (subst roundDouble_eval [where e = 7]) (simp_all add: rd_simps)

lemma rd_factor: "roundDouble (884279719003555 / 2 ^ 48 / 180) = 5030569068109113 / 2 ^ 58"
  by (subst roundDouble_eval [where e = "- 6"]) (simp_all add: rd_simps)

lemma rd_dLat: "roundDouble (175 * (5030569068109113 / 2 ^ 58)) = 1719432786951357 / 2 ^ 49"
  by (subst roundDouble_eval [where e = 1]) (simp_all add: rd_simps)

lemma rd_half_dLat: "roundDouble (1719432786951357 / 2 ^ 49 / 2) = 1719432786951357 / 2 ^ 50"
  by (subst roundDouble_eval [where e = 0]) (simp_all add: rd_simps)

lemma rd_lat1: "roundDouble (- (175 / 2) * (5030569068109113 / 2 ^ 58)) = - (1719432786951357 / 2 ^ 50)"
  by (subst roundDouble_eval [where e = 0]) (simp_all add: rd_simps)

lemma rd_lat2: "roundDouble (175 / 2 * (5030569068109113 / 2 ^ 58)) = 1719432786951357 / 2 ^ 50"
  by (subst roundDouble_eval [where e = 0]) (simp_all add: rd_simps)

lemma rd_dLon: "roundDouble (180 * (5030569068109113 / 2 ^ 58)) = 884279719003555 / 2 ^ 48"
  by (subst roundDouble_eval [where e = 1]) (simp_all add: rd_simps)

lemma rd_half_dLon: "roundDouble (884279719003555 / 2 ^ 48 / 2) = 884279719003555 / 2 ^ 49"
  by (subst roundDouble_eval [where e = 0]) (simp_all add: rd_simps)

lemma rd_sin_sq:
  "roundDouble (8998626396882423 / 2 ^ 53 * (8998626396882423 / 2 ^ 53)) = 4495030849242473 / 2 ^ 52"
  by (subst roundDouble_eval [where e = "- 1"]) (simp_all add: rd_simps)

lemma rd_cos_sq:
  "roundDouble (3143108106954505 / 2 ^ 56 * (3143108106954505 / 2 ^ 56)) = 8774428803096097 / 2 ^ 62"
  by (subst roundDouble_eval [where e = "- 10"]) (simp_all add: rd_simps)

lemma rd_cos_sq_again:
  "roundDouble (8774428803096097 / 2 ^ 62 * 1) = 8774428803096097 / 2 ^ 62"
  by (subst roundDouble_eval [where e = "- 10"]) (simp_all add: rd_simps)

lemma rd_a:
  "roundDouble (4495030849242473 / 2 ^ 52 + 8774428803096097 / 2 ^ 62) = 4503599627370497 / 2 ^ 52"
  by (subst roundDouble_eval [where e = 0]) (simp_all add: rd_simps)

lemma rd_one_minus_a:
  "roundDouble (1 - 4503599627370497 / 2 ^ 52) = - (1 / 2 ^ 52)"
  by (subst roundDouble_eval [where e = "- 52"]) (simp_all add: rd_simps)


lemma doublePlatform_fields:
  "rnd doublePlatform = roundDouble"
  "Math_PI doublePlatform = 884279719003555 / 2 ^ 48"
  "Math_sin doublePlatform = doubleSin"
  "Math_cos doublePlatform = doubleCos"
  "utcOffset doublePlatform = (\<lambda>t. 0)"
  "localOffset doublePlatform = (\<lambda>t. 0)"
  by (simp_all add: doublePlatform_def)

lemma haversine_polar_NaN:
  "haversineDistance doublePlatform (- (175 / 2)) 0 (175 / 2) 180 = NaN"
proof -
  let ?pf = doublePlatform
  note f = doublePlatform_fields
  have k: "fdiv ?pf (884279719003555 / 2 ^ 48) 180 = 5030569068109113 / 2 ^ 58"
    unfolding fdiv_def f by (rule rd_factor)
  have "fsub ?pf (175 / 2) (- (175 / 2)) = 175"
    by (simp add: fsub_def f rd_175)
  then have dLat: "toRadians ?pf (fsub ?pf (175 / 2) (- (175 / 2))) = 1719432786951357 / 2 ^ 49"
    unfolding toRadians_def f k fmul_def f by (simp only: rd_dLat)
  have hLat: "fdiv ?pf (1719432786951357 / 2 ^ 49) 2 = 1719432786951357 / 2 ^ 50"
    unfolding fdiv_def f by (rule rd_half_dLat)
  have "fsub ?pf 180 0 = 180"
    by (simp add: fsub_def f rd_180)
  then have dLon: "toRadians ?pf (fsub ?pf 180 0) = 884279719003555 / 2 ^ 48"
    unfolding toRadians_def f k fmul_def f by (simp only: rd_dLon)
  have hLon: "fdiv ?pf (884279719003555 / 2 ^ 48) 2 = 884279719003555 / 2 ^ 49"
    unfolding fdiv_def f by (rule rd_half_dLon)
  have lat1: "toRadians ?pf (- (175 / 2)) = - (1719432786951357 / 2 ^ 50)"
    unfolding toRadians_def f k fmul_def f by (rule rd_lat1)
  have lat2: "toRadians ?pf (175 / 2) = 1719432786951357 / 2 ^ 50"
    unfolding toRadians_def f k fmul_def f by (rule rd_lat2)
  have s1: "Math_sin ?pf (1719432786951357 / 2 ^ 50) = 8998626396882423 / 2 ^ 53"
    unfolding f by (simp add: doubleSin_def)
  have s2: "Math_sin ?pf (884279719003555 / 2 ^ 49) = 1"
    unfolding f by (simp add: doubleSin_def)
  have c1: "Math_cos ?pf (- (1719432786951357 / 2 ^ 50)) = 3143108106954505 / 2 ^ 56"
    unfolding f by (simp add: doubleCos_def)
  have c2: "Math_cos ?pf (1719432786951357 / 2 ^ 50) = 3143108106954505 / 2 ^ 56"
    unfolding f by (simp add: doubleCos_def)
  have ss: "fmul ?pf (8998626396882423 / 2 ^ 53) (8998626396882423 / 2 ^ 53)
              = 4495030849242473 / 2 ^ 52"
    unfolding fmul_def f by (rule rd_sin_sq)
  have cc: "fmul ?pf (3143108106954505 / 2 ^ 56) (3143108106954505 / 2 ^ 56)
              = 8774428803096097 / 2 ^ 62"
    unfolding fmul_def f by (rule rd_cos_sq)
  have cc1: "fmul ?pf (8774428803096097 / 2 ^ 62) 1 = 8774428803096097 / 2 ^ 62"
    unfolding fmul_def f by (rule rd_cos_sq_again)
  have a: "fadd ?pf (4495030849242473 / 2 ^ 52) (8774428803096097 / 2 ^ 62)
             = 4503599627370497 / 2 ^ 52"
    unfolding fadd_def f by (rule rd_a)
  have neg: "fsub ?pf 1 (4503599627370497 / 2 ^ 52) = - (1 / 2 ^ 52)"
    unfolding fsub_def f by (rule rd_one_minus_a)
  have "Math_sqrt ?pf (- (1 / 2 ^ 52)) = NaN"
    by (simp add: Math_sqrt_def)
  then show ?thesis
    unfolding haversineDistance_def Let_def dLat hLat dLon hLon lat1 lat2 s1 s2 c1 c2 ss cc cc1 a neg
    by (simp split: jsnumber.splits)
qed


lemma hoursBefore_double [simp]: "hoursBefore doublePlatform h now = now - h * 3600000"
  by (simp add: hoursBefore_def doublePlatform_def)

lemma polar_distance:
  "calculateDistanceFactor doublePlatform (sampleClock 3) polarDb ''vehicle-trk-001''
     = \<lparr> score = NaN, reason = None \<rparr>"
proof -
  have "gpsReadings polarDb ''vehicle-trk-001'' (hoursBefore doublePlatform 6 (sampleClock 3))
          = sensorReading polarDb"
    by (simp add: gpsReadings_def polarDb_def sample_defs)
  then show ?thesis
    unfolding calculateDistanceFactor_def Let_def
    by (simp add: polarDb_def gpsPoint_def haversine_polar_NaN)
qed

lemma polar_tempVariance:
  "calculateTempVariance doublePlatform (sampleClock 0) polarDb ''vehicle-trk-001''
     = \<lparr> score = 5, reason = Some ''No recent sensor readings in last 6 hours'' \<rparr>"
  by (simp add: calculateTempVariance_def tempVariancePipeline_def polarDb_def sample_defs)

lemma polar_alert:
  "calculateAlertFactor doublePlatform (sampleClock 1) polarDb ''vehicle-trk-001''
     = \<lparr> score = 15, reason = Some ''3 alert(s) in last 24h (2 critical, 1 warning)'' \<rparr>"
  by (simp add: calculateAlertFactor_def alertPipeline_def polarDb_def sample_defs digit_def
      natToString_Suc)

text \<open>
  C4 fails on the code. With those two readings of the truck in the last six hours, on the
  double platform, the distance is NaN, and so are the distance factor, the total and
  the score returned and stored, which the claim requires to be an integer from 0 to
  100. The level is LOW. The score of a trip is in range for every input
  (\<open>trip_score_in_range\<close>).
\<close>

theorem near_antipodal_score_NaN:
  "getVehicleRiskScore doublePlatform sampleRuntime polarDb ''vehicle-trk-001'' =
     (Inr \<lparr> dto_score = NaN, dto_level = LOW,
            dto_reasons = [''No recent sensor readings in last 6 hours'',
                           ''3 alert(s) in last 24h (2 critical, 1 warning)'',
                           ''Vehicle data is 61 minutes stale''] \<rparr>,
      polarDb \<lparr> vehicleRiskSnapshot :=
        [\<lparr> vrs_visibleId = ''snapshot-1'', vrs_vehicle_id = ''vehicle-trk-001'',
           vrs_score = NaN, vrs_level = LOW,
           vrs_reasons = [''No recent sensor readings in last 6 hours'',
                          ''3 alert(s) in last 24h (2 critical, 1 warning)'',
                          ''Vehicle data is 61 minutes stale''],
           vrs_calculated_at = 100000004 \<rparr>] \<rparr>)"
proof -
  have f: "find (\<lambda>v. vehicle_visibleId v = ''vehicle-trk-001'') (vehicle polarDb) = Some truck"
    by (simp add: polarDb_def fleetDb_def truck_def)
  have c: "clock sampleRuntime = sampleClock" "uuidv4 sampleRuntime = ''snapshot-1''"
    by (simp_all add: sampleRuntime_def)
  show ?thesis
    unfolding getVehicleRiskScore_def f c option.case Let_def
      polar_tempVariance polar_alert sample_gap polar_distance
    by (simp add: pushReason_def storeVehicleRiskSnapshot_def sampleClock_def addScore_def
        roundAndCap_def levelOf_def) (simp add: polarDb_def fleetDb_def)
qed


subsection \<open>The movement anomaly factor\<close>

lemma gpsReadings_facts:
  "length (gpsReadings d v t) \<le> 500"
  "sorted (map timestamp (gpsReadings d v t))"
  "set (gpsReadings d v t)
     \<subseteq> {r \<in> set (sensorReading d). reading_vehicle_id r = v \<and> t \<le> timestamp r}"
proof -
  show "length (gpsReadings d v t) \<le> 500"
    by (simp add: gpsReadings_def)
  show "sorted (map timestamp (gpsReadings d v t))"
    unfolding gpsReadings_def take_map [symmetric]
    by (intro sorted_wrt_take) simp
  show "set (gpsReadings d v t)
     \<subseteq> {r \<in> set (sensorReading d). reading_vehicle_id r = v \<and> t \<le> timestamp r}"
    unfolding gpsReadings_def using set_take_subset by fastforce
qed

text \<open>The readings fetched are the first of the vehicle's in the window, in time order, and
  all of them unless there are more than 500.\<close>

lemma gpsReadings_earliest:
  "\<exists>rest. sort_key timestamp
             (filter (\<lambda>r. reading_vehicle_id r = v \<and> t \<le> timestamp r) (sensorReading d))
             = gpsReadings d v t @ rest
          \<and> (rest \<noteq> [] \<longrightarrow> length (gpsReadings d v t) = 500)"
proof -
  define s where
    "s = sort_key timestamp
           (filter (\<lambda>r. reading_vehicle_id r = v \<and> t \<le> timestamp r) (sensorReading d))"
  have rs: "gpsReadings d v t = take 500 s"
    by (simp add: gpsReadings_def s_def)
  have "s = take 500 s @ drop 500 s"
    by simp
  moreover have "drop 500 s \<noteq> [] \<longrightarrow> length (take 500 s) = 500"
    by simp
  ultimately show ?thesis
    unfolding rs s_def [symmetric] by blast
qed

lemma hoursBefore_fixed_offset:
  assumes "localOffset pf (now + utcOffset pf now - h * 3600000) = utcOffset pf now"
  shows "hoursBefore pf h now = now - h * 3600000"
  using assms by (simp add: hoursBefore_def Let_def)

lemma distanceLoop_foldl:
  "distanceLoop pf t rs =
     foldl (\<lambda>t i. addDistance pf t
                     (haversineDistance pf (latitude (rs ! i)) (longitude (rs ! i))
                        (latitude (rs ! Suc i)) (longitude (rs ! Suc i))))
       t [0..<length rs - 1]"
proof (induction pf t rs rule: distanceLoop.induct)
  case (1 pf t p q rest)
  have n: "[0..<length (p # q # rest) - 1] = 0 # map Suc [0..<length (q # rest) - 1]"
    by (simp add: upt_conv_Cons map_Suc_upt del: upt_Suc)
  show ?case
    unfolding distanceLoop.simps "1.IH" n by (simp add: foldl_map)
qed simp_all

lemma distanceLoop_ideal:
  "distanceLoop idealPlatform (Num acc) rs =
     Num (acc + (\<Sum>i<length rs - 1. greatCircleKm (latitude (rs ! i)) (longitude (rs ! i))
                                        (latitude (rs ! Suc i)) (longitude (rs ! Suc i))))"
proof (induction rs arbitrary: acc rule: induct_list012)
  case (3 p q rest)
  let ?leg = "\<lambda>xs i. greatCircleKm (latitude (xs ! i)) (longitude (xs ! i))
                        (latitude (xs ! Suc i)) (longitude (xs ! Suc i))"
  have n: "length (p # q # rest) - 1 = Suc (length rest)" "length (q # rest) - 1 = length rest"
    by simp_all
  have "(\<Sum>i<Suc (length rest). ?leg (p # q # rest) i)
          = ?leg (p # q # rest) 0 + (\<Sum>i<length rest. ?leg (p # q # rest) (Suc i))"
    by (rule sum.lessThan_Suc_shift)
  also have "\<dots> = greatCircleKm (latitude p) (longitude p) (latitude q) (longitude q)
                  + (\<Sum>i<length rest. ?leg (q # rest) i)"
    by simp
  finally show ?case
    unfolding distanceLoop.simps haversineDistance_ideal addDistance.simps fadd_ideal
      "3.IH"(2) n by simp
qed simp_all

lemma low_distance_score: "km \<le> 300 \<Longrightarrow> Math_round ((km / 500) * 10) \<le> 6"
  by (intro Math_round_le_numeral) simp

text \<open>The distance does not read the time zone.\<close>

lemma haversineDistance_autumn:
  "haversineDistance autumnPlatform lat1 lon1 lat2 lon2
     = haversineDistance idealPlatform lat1 lon1 lat2 lon2"
proof -
  have "rnd autumnPlatform = rnd idealPlatform" "Math_sin autumnPlatform = Math_sin idealPlatform"
    "Math_cos autumnPlatform = Math_cos idealPlatform"
    "Math_atan2 autumnPlatform = Math_atan2 idealPlatform"
    "Math_PI autumnPlatform = Math_PI idealPlatform"
    by (simp_all add: autumnPlatform_def)
  then show ?thesis
    unfolding haversineDistance_def toRadians_def Math_sqrt_def fadd_def fsub_def fmul_def
      fdiv_def
    by (simp only:)
qed

text \<open>The eleven readings 0.05 km apart.\<close>

lemma walk_numbers: "[0, 1, 2, 3, 4, 5, 6, 7, 8, 9, 10] = [0..<11::nat]"
  by code_simp

lemma walk_leg:
  "greatCircleKm (latitude (walkPoint i)) (longitude (walkPoint i))
     (latitude (walkPoint (Suc i))) (longitude (walkPoint (Suc i))) = 1 / 20"
proof -
  define c :: real where "c = 9 / (6371 * pi)"
  have c: "0 \<le> c" "c \<le> 180"
  proof -
    show "0 \<le> c" by (simp add: c_def)
    have "9 \<le> 180 * (6371 * 2 :: real)" by simp
    also have "\<dots> \<le> 180 * (6371 * pi)" using pi_ge_two by simp
    finally show "c \<le> 180" by (simp add: c_def pos_divide_le_eq)
  qed
  have d: "real (Suc i) * c - real i * c = c"
    by (simp add: algebra_simps)
  have "greatCircleKm (real i * c) 29 (real (Suc i) * c) 29
          = 6371 * radians (real (Suc i) * c - real i * c)"
    by (rule greatCircleKm_meridian) (simp_all only: d c)
  also have "\<dots> = 1 / 20"
    unfolding d by (simp add: radians_def c_def)
  finally show ?thesis
    unfolding walkPoint_def gpsPoint_def c_def by simp
qed

lemma walk_gps:
  "gpsReadings walkDb ''vehicle-trk-001'' (hoursBefore idealPlatform 6 (sampleClock 3))
     = map walkPoint [0..<11]"
  unfolding walk_numbers [symmetric]
  by (simp add: gpsReadings_def walkDb_def walkPoint_def sample_defs)

lemma walk_loop: "distanceLoop idealPlatform (Num 0) (map walkPoint [0..<11]) = Num (1 / 2)"
proof -
  have "(\<Sum>i<10. greatCircleKm (latitude (map walkPoint [0..<11] ! i))
                    (longitude (map walkPoint [0..<11] ! i))
                    (latitude (map walkPoint [0..<11] ! Suc i))
                    (longitude (map walkPoint [0..<11] ! Suc i)))
          = (\<Sum>i<10::nat. 1 / 20 :: real)"
    by (intro sum.cong refl) (simp add: walk_leg del: upt_Suc)
  then show ?thesis
    unfolding distanceLoop_ideal by simp
qed

text \<open>The two readings eight degrees of latitude apart: more than 500 km.\<close>

lemma jump_gps:
  "gpsReadings jumpDb ''vehicle-trk-001'' (hoursBefore idealPlatform 6 (sampleClock 3))
     = [gpsPoint 0 \<lparr> latitude := 33 \<rparr>, gpsPoint 1 \<lparr> latitude := 41 \<rparr>]"
  by (simp add: gpsReadings_def jumpDb_def sample_defs)

lemma jump_loop:
  "distanceLoop idealPlatform (Num 0) [gpsPoint 0 \<lparr> latitude := 33 \<rparr>, gpsPoint 1 \<lparr> latitude := 41 \<rparr>]
     = Num (6371 * radians 8)"
proof -
  have "greatCircleKm 33 29 41 29 = 6371 * radians (41 - 33)"
    by (rule greatCircleKm_meridian) simp_all
  then show ?thesis
    by (simp add: haversineDistance_ideal gpsPoint_def)
qed

lemma jump_km: "6371 * radians 8 > 500"
proof -
  have "500 < 6371 * (8 * (2 / 180 :: real))" by simp
  also have "\<dots> \<le> 6371 * (8 * (pi / 180))" using pi_ge_two by simp
  finally show ?thesis by (simp add: radians_def)
qed

lemma sample_no_gps:
  "gpsReadings fleetDb ''vehicle-trk-999'' (hoursBefore idealPlatform 6 (sampleClock 3)) = []"
  by (simp add: gpsReadings_def sample_defs)

text \<open>
  The twelve readings six to seven hours old, on the day the zone leaves summer time:
  six hours of wall-clock time before the clock are seven hours before it.
\<close>

lemma autumn_since: "hoursBefore autumnPlatform 6 (sampleClock 3) = 74800003"
  by (simp add: hoursBefore_def autumnPlatform_def idealPlatform_def sampleClock_def)

lemma stale_gps:
  "gpsReadings staleDb ''vehicle-trk-001'' 74800003 = sensorReading staleDb"
  by (simp add: gpsReadings_def staleDb_def oldPoint_def sample_defs)

lemma fadd_autumn: "fadd autumnPlatform x y = x + y"
  by (simp add: fadd_def autumnPlatform_def idealPlatform_def)

lemma stale_loop:
  "distanceLoop autumnPlatform (Num 0) (sensorReading staleDb) = Num 0"
  by (simp add: staleDb_def oldPoint_def gpsPoint_def fleetDb_def haversineDistance_autumn
        haversineDistance_same fadd_autumn)





subsection \<open>The temperature variance factor\<close>

text \<open>
  The pipeline of \<open>calculateTempVariance\<close> matches the field \<^verbatim>\<open>id\<close> of a reading, its own
  identifier, against the vehicle id, where the two sibling queries match \<^verbatim>\<open>vehicle_id\<close>.
  When no reading has the vehicle's id as its own, the factor reports that there are no
  recent readings, whatever the vehicle has sent.
\<close>

lemma tempVariance_no_id_match:
  assumes "\<forall>r \<in> set (sensorReading d). reading_id r \<noteq> vehicleId"
  shows "calculateTempVariance pf now d vehicleId
           = \<lparr> score = 5, reason = Some ''No recent sensor readings in last 6 hours'' \<rparr>"
proof -
  have "filter (\<lambda>r. reading_id r = vehicleId \<and> timestamp r \<ge> hoursBefore pf 6 now)
          (sensorReading d) = []"
    using assms by (simp add: filter_empty_conv)
  then show ?thesis
    by (simp add: calculateTempVariance_def tempVariancePipeline_def)
qed

text \<open>
  C1 fails on the code. The sample truck has sent eleven readings in the last six hours,
  with temperatures from -26 to -14: a range of 12, for which the claim gives 25 points.
  The code gives 5 points and the reason that there are no recent readings.
\<close>

theorem tempVariance_matches_reading_id:
  "filter (\<lambda>r. reading_vehicle_id r = ''vehicle-trk-001''
                \<and> timestamp r \<ge> hoursBefore idealPlatform 6 (sampleClock 0)) (sensorReading fleetDb)
     = sensorReading fleetDb
   \<and> length (sensorReading fleetDb) = 11
   \<and> Max (temperature ` set (sensorReading fleetDb)) = - 14
   \<and> Min (temperature ` set (sensorReading fleetDb)) = - 26
   \<and> calculateTempVariance idealPlatform (sampleClock 0) fleetDb ''vehicle-trk-001''
       = \<lparr> score = 5, reason = Some ''No recent sensor readings in last 6 hours'' \<rparr>"
  by (simp add: sample_tempVariance) (simp add: sample_defs)

end
